theory Spec2Isabelle
  imports Main "HOL-Library.Word"
begin

section \<open>Move and Sui primitives used by the contracts\<close>

text \<open>
  The four Move modules of the marketplace (\<open>ai_twin_nft\<close>, \<open>marketplace\<close>,
  \<open>access_token\<close>, \<open>revenue_distribution\<close>) are embedded function by function.
  A Move \<open>u64\<close> is a \<open>64 word\<close>; Move arithmetic does not wrap but aborts on overflow
  and underflow, so every \<open>+\<close>, \<open>-\<close> and \<open>*\<close> of the source is a checked operation
  that returns an abort. An abort is the left summand of the result; since a Sui
  transaction that aborts leaves every object as it was, the caller's state is simply
  the old one in that case. Event emission only appends to the transaction log and is
  not part of any object, so \<open>event::emit\<close> is left out, except for the aborts that
  evaluating an event's fields can raise (\<open>string::utf8\<close>). Fields keep their names;
  the \<open>id: UID\<close> of an object is the field \<open>uid\<close>, and a field name that
  several structs share is written with the struct in front (\<open>Listing.is_active\<close>).
  Addresses are natural numbers, a \<open>String\<close> is its bytes, and a coin or balance of
  SUI is its value.
\<close>

type_synonym u8 = "8 word"
type_synonym u64 = "64 word"
type_synonym address = nat
type_synonym ID = "nat \<times> nat"
type_synonym String = "u8 list"
type_synonym Coin = u64

datatype abort =
    ERROR_INSUFFICIENT_PAYMENT
  | ERROR_LISTING_INACTIVE
  | ERROR_INVALID_ACCESS_TYPE
  | ERROR_NOT_SELLER
  | ERROR_NOT_AUTHORIZED
  | ERROR_INSUFFICIENT_BALANCE
  | ERROR_NO_EARNINGS
  | ERROR_TWIN_ALREADY_EXISTS
  | ERROR_TWIN_NOT_FOUND
  | ARITHMETIC_ERROR
  | EINVALID_UTF8
  | EFieldAlreadyExists
  | EFieldDoesNotExist
  | ENotEnough
  | EINDEX_OUT_OF_BOUNDS
  | ENonZero

definition and_then :: "abort + 'a \<Rightarrow> ('a \<Rightarrow> abort + 'b) \<Rightarrow> abort + 'b" where
  "and_then r k = (case r of Inl e \<Rightarrow> Inl e | Inr v \<Rightarrow> k v)"

definition assert_that :: "bool \<Rightarrow> abort \<Rightarrow> abort + unit" where
  "assert_that c e = (if c then Inr () else Inl e)"

definition u64_add :: "u64 \<Rightarrow> u64 \<Rightarrow> abort + u64" where
  "u64_add a b = (if unat a + unat b < 2 ^ 64 then Inr (a + b) else Inl ARITHMETIC_ERROR)"

definition u64_sub :: "u64 \<Rightarrow> u64 \<Rightarrow> abort + u64" where
  "u64_sub a b = (if b \<le> a then Inr (a - b) else Inl ARITHMETIC_ERROR)"

definition u64_mul :: "u64 \<Rightarrow> u64 \<Rightarrow> abort + u64" where
  "u64_mul a b = (if unat a * unat b < 2 ^ 64 then Inr (a * b) else Inl ARITHMETIC_ERROR)"

text \<open>
  \<open>tx_context\<close>: the signer, the epoch and the counter from which \<open>object::new\<close>
  derives a fresh identifier (the transaction digest paired with the counter).
\<close>

record TxContext =
  sender :: address
  tx_hash :: nat
  epoch :: u64
  ids_created :: nat

definition object_new :: "TxContext \<Rightarrow> ID \<times> TxContext" where
  "object_new ctx = ((tx_hash ctx, ids_created ctx), ctx\<lparr>ids_created := Suc (ids_created ctx)\<rparr>)"

text \<open>
  \<open>string::utf8\<close> aborts unless the bytes are well-formed UTF-8. The check itself is a
  native of the Move standard library; it is written out here after the table of
  well-formed byte sequences of the Unicode standard.
\<close>

definition in_range :: "u8 \<Rightarrow> u8 \<Rightarrow> u8 \<Rightarrow> bool" where
  "in_range lo hi b = (lo \<le> b \<and> b \<le> hi)"

fun internal_check_utf8 :: "u8 list \<Rightarrow> bool" where
  "internal_check_utf8 [] = True"
| "internal_check_utf8 (b # bs) =
     (if b \<le> 0x7F then internal_check_utf8 bs
      else if in_range 0xC2 0xDF b then
        (case bs of
           c1 # r \<Rightarrow> in_range 0x80 0xBF c1 \<and> internal_check_utf8 r
         | _ \<Rightarrow> False)
      else if in_range 0xE0 0xEF b then
        (case bs of
           c1 # c2 # r \<Rightarrow>
             in_range (if b = 0xE0 then 0xA0 else 0x80) (if b = 0xED then 0x9F else 0xBF) c1
             \<and> in_range 0x80 0xBF c2 \<and> internal_check_utf8 r
         | _ \<Rightarrow> False)
      else if in_range 0xF0 0xF4 b then
        (case bs of
           c1 # c2 # c3 # r \<Rightarrow>
             in_range (if b = 0xF0 then 0x90 else 0x80) (if b = 0xF4 then 0x8F else 0xBF) c1
             \<and> in_range 0x80 0xBF c2 \<and> in_range 0x80 0xBF c3 \<and> internal_check_utf8 r
         | _ \<Rightarrow> False)
      else False)"

definition utf8 :: "u8 list \<Rightarrow> abort + String" where
  "utf8 bytes = (if internal_check_utf8 bytes then Inr bytes else Inl EINVALID_UTF8)"

text \<open>\<open>sui::table\<close>: a keyed store; \<open>add\<close> aborts on a key that is present,
  \<open>remove\<close> and \<open>borrow\<close> on one that is absent.\<close>

definition table_contains :: "('k \<rightharpoonup> 'v) \<Rightarrow> 'k \<Rightarrow> bool" where
  "table_contains t k = (case t k of None \<Rightarrow> False | Some _ \<Rightarrow> True)"

definition table_add :: "('k \<rightharpoonup> 'v) \<Rightarrow> 'k \<Rightarrow> 'v \<Rightarrow> abort + ('k \<rightharpoonup> 'v)" where
  "table_add t k v = (case t k of None \<Rightarrow> Inr (t(k \<mapsto> v)) | Some _ \<Rightarrow> Inl EFieldAlreadyExists)"

definition table_remove :: "('k \<rightharpoonup> 'v) \<Rightarrow> 'k \<Rightarrow> abort + ('k \<rightharpoonup> 'v)" where
  "table_remove t k = (case t k of None \<Rightarrow> Inl EFieldDoesNotExist | Some _ \<Rightarrow> Inr (t(k := None)))"

definition table_borrow :: "('k \<rightharpoonup> 'v) \<Rightarrow> 'k \<Rightarrow> abort + 'v" where
  "table_borrow t k = (case t k of None \<Rightarrow> Inl EFieldDoesNotExist | Some v \<Rightarrow> Inr v)"

text \<open>\<open>sui::coin\<close> and \<open>sui::balance\<close>: a coin is its value. \<open>split\<close> takes an
  amount out of a coin and aborts when the coin holds less; \<open>join\<close> adds.\<close>

definition coin_split :: "Coin \<Rightarrow> u64 \<Rightarrow> abort + (Coin \<times> Coin)" where
  "coin_split c amount = (if amount \<le> c then Inr (c - amount, amount) else Inl ENotEnough)"

definition balance_join :: "u64 \<Rightarrow> u64 \<Rightarrow> abort + u64" where
  "balance_join b v = u64_add b v"

definition balance_split :: "u64 \<Rightarrow> u64 \<Rightarrow> abort + (u64 \<times> u64)" where
  "balance_split b v = (if v \<le> b then Inr (b - v, v) else Inl ENotEnough)"

section \<open>Module \<open>ai_twin_nft\<close>\<close>

record AITwinNFT =
  uid :: ID
  twin_id :: String
  creator :: address
  name :: String
  description :: String
  training_data_blob_id :: String
  created_at :: u64
  metadata :: "u8 list"

record AITwinRegistry =
  uid :: ID
  total_minted :: u64
  twins :: "String \<rightharpoonup> address"

text \<open>The result of an entry function lists, after the shared objects it mutated, the
  objects it hands over with \<open>transfer::public_transfer\<close>, each with its recipient.\<close>

definition mint_ai_twin ::
  "AITwinRegistry \<Rightarrow> u8 list \<Rightarrow> u8 list \<Rightarrow> u8 list \<Rightarrow> u8 list \<Rightarrow> u8 list \<Rightarrow> TxContext
    \<Rightarrow> abort + (AITwinRegistry \<times> (AITwinNFT \<times> address))" where
  "mint_ai_twin registry twin_id_bytes name_bytes description_bytes blob_bytes metadata_bytes ctx =
     and_then (utf8 twin_id_bytes) (\<lambda>twin_id_string.
     let creator_addr = sender ctx in
     and_then (assert_that (\<not> table_contains (twins registry) twin_id_string)
                 ERROR_TWIN_ALREADY_EXISTS) (\<lambda>_.
     and_then (utf8 name_bytes) (\<lambda>name_string.
     and_then (utf8 description_bytes) (\<lambda>description_string.
     and_then (utf8 blob_bytes) (\<lambda>blob_string.
     let nft = \<lparr>AITwinNFT.uid = fst (object_new ctx), twin_id = twin_id_string,
                 creator = creator_addr, name = name_string, description = description_string,
                 training_data_blob_id = blob_string, created_at = epoch ctx,
                 metadata = metadata_bytes\<rparr> in
     and_then (table_add (twins registry) twin_id_string creator_addr) (\<lambda>twins1.
     and_then (u64_add (total_minted registry) 1) (\<lambda>minted1.
     Inr (registry\<lparr>twins := twins1, total_minted := minted1\<rparr>, (nft, creator_addr)))))))))"

definition transfer_twin ::
  "AITwinRegistry \<Rightarrow> AITwinNFT \<Rightarrow> address \<Rightarrow> TxContext
    \<Rightarrow> abort + (AITwinRegistry \<times> (AITwinNFT \<times> address))" where
  "transfer_twin registry nft recipient ctx =
     (let twin = AITwinNFT.twin_id nft in
      and_then (if table_contains (twins registry) twin
                then table_remove (twins registry) twin
                else Inr (twins registry)) (\<lambda>twins1.
      and_then (table_add twins1 twin recipient) (\<lambda>twins2.
      Inr (registry\<lparr>twins := twins2\<rparr>, (nft, recipient)))))"

definition burn_twin :: "AITwinRegistry \<Rightarrow> AITwinNFT \<Rightarrow> TxContext \<Rightarrow> abort + AITwinRegistry" where
  "burn_twin registry nft ctx =
     (let twin = AITwinNFT.twin_id nft in
      and_then (if table_contains (twins registry) twin
                then table_remove (twins registry) twin
                else Inr (twins registry)) (\<lambda>twins1.
      Inr (registry\<lparr>twins := twins1\<rparr>)))"

definition get_twin_owner :: "AITwinRegistry \<Rightarrow> String \<Rightarrow> abort + address" where
  "get_twin_owner registry twin =
     and_then (assert_that (table_contains (twins registry) twin) ERROR_TWIN_NOT_FOUND) (\<lambda>_.
     table_borrow (twins registry) twin)"

definition twin_exists :: "AITwinRegistry \<Rightarrow> String \<Rightarrow> bool" where
  "twin_exists registry twin = table_contains (twins registry) twin"

section \<open>Module \<open>marketplace\<close>\<close>

definition PLATFORM_FEE_PERCENT :: u64 where "PLATFORM_FEE_PERCENT = 5"
definition ACCESS_TYPE_FULL :: u8 where "ACCESS_TYPE_FULL = 1"
definition ACCESS_TYPE_LIMITED :: u8 where "ACCESS_TYPE_LIMITED = 2"
definition ACCESS_TYPE_TEMPORARY :: u8 where "ACCESS_TYPE_TEMPORARY = 3"

record Listing =
  uid :: ID
  twin_id :: String
  nft_id :: ID
  seller :: address
  price :: u64
  access_type :: u8
  access_duration_days :: u64
  terms :: String
  is_active :: bool
  created_at :: u64

record MarketplaceRegistry =
  uid :: ID
  platform_fee_percent :: u64
  platform_fee_recipient :: address
  total_listings :: u64
  total_sales :: u64
  total_volume :: u64
  listings :: "ID \<rightharpoonup> bool"

definition marketplace_init :: "TxContext \<Rightarrow> MarketplaceRegistry" where
  "marketplace_init ctx =
     \<lparr>MarketplaceRegistry.uid = fst (object_new ctx),
      platform_fee_percent = PLATFORM_FEE_PERCENT,
      platform_fee_recipient = sender ctx,
      total_listings = 0, total_sales = 0, total_volume = 0,
      listings = Map.empty\<rparr>"

definition list_ai_twin ::
  "MarketplaceRegistry \<Rightarrow> AITwinNFT \<Rightarrow> u64 \<Rightarrow> u8 \<Rightarrow> u64 \<Rightarrow> u8 list \<Rightarrow> TxContext
    \<Rightarrow> abort + (MarketplaceRegistry \<times> Listing)" where
  "list_ai_twin registry nft price_arg access_type_arg access_duration_days_arg terms_bytes ctx =
     (let seller_addr = sender ctx in
      and_then (assert_that (access_type_arg = ACCESS_TYPE_FULL
                             \<or> access_type_arg = ACCESS_TYPE_LIMITED
                             \<or> access_type_arg = ACCESS_TYPE_TEMPORARY)
                  ERROR_INVALID_ACCESS_TYPE) (\<lambda>_.
      and_then (utf8 terms_bytes) (\<lambda>terms_string.
      let listing = \<lparr>Listing.uid = fst (object_new ctx),
                     twin_id = AITwinNFT.twin_id nft,
                     nft_id = AITwinNFT.uid nft,
                     seller = seller_addr,
                     price = price_arg,
                     access_type = access_type_arg,
                     access_duration_days = access_duration_days_arg,
                     terms = terms_string,
                     is_active = True,
                     created_at = epoch ctx\<rparr>;
          listing_id = Listing.uid listing in
      and_then (table_add (listings registry) listing_id True) (\<lambda>listings1.
      and_then (u64_add (total_listings registry) 1) (\<lambda>count1.
      Inr (registry\<lparr>listings := listings1, total_listings := count1\<rparr>, listing))))))"

definition update_listing :: "Listing \<Rightarrow> u64 \<Rightarrow> u8 list \<Rightarrow> TxContext \<Rightarrow> abort + Listing" where
  "update_listing listing new_price new_terms ctx =
     and_then (assert_that (sender ctx = seller listing) ERROR_NOT_SELLER) (\<lambda>_.
     and_then (assert_that (Listing.is_active listing) ERROR_LISTING_INACTIVE) (\<lambda>_.
     and_then (utf8 new_terms) (\<lambda>terms_string.
     Inr (listing\<lparr>price := new_price, terms := terms_string\<rparr>))))"

definition delist_ai_twin ::
  "MarketplaceRegistry \<Rightarrow> Listing \<Rightarrow> TxContext \<Rightarrow> abort + (MarketplaceRegistry \<times> Listing)" where
  "delist_ai_twin registry listing ctx =
     and_then (assert_that (sender ctx = seller listing) ERROR_NOT_SELLER) (\<lambda>_.
     and_then (assert_that (Listing.is_active listing) ERROR_LISTING_INACTIVE) (\<lambda>_.
     let listing1 = listing\<lparr>Listing.is_active := False\<rparr>;
         listing_id = Listing.uid listing1 in
     and_then (if table_contains (listings registry) listing_id
               then table_remove (listings registry) listing_id
               else Inr (listings registry)) (\<lambda>listings1.
     Inr (registry\<lparr>listings := listings1\<rparr>, listing1))))"

text \<open>\<open>purchase_access\<close> returns the NFT for the buyer, the platform-fee coin, the
  seller's coin and the change, next to the registry and the listing it mutated.\<close>

definition purchase_access ::
  "MarketplaceRegistry \<Rightarrow> Listing \<Rightarrow> AITwinNFT \<Rightarrow> Coin \<Rightarrow> TxContext
    \<Rightarrow> abort + ((MarketplaceRegistry \<times> Listing) \<times> (AITwinNFT \<times> Coin \<times> Coin \<times> Coin))" where
  "purchase_access registry listing nft payment ctx =
     and_then (assert_that (Listing.is_active listing) ERROR_LISTING_INACTIVE) (\<lambda>_.
     let payment_amount = payment in
     and_then (assert_that (price listing \<le> payment_amount) ERROR_INSUFFICIENT_PAYMENT) (\<lambda>_.
     and_then (u64_mul (price listing) (platform_fee_percent registry)) (\<lambda>product.
     let platform_fee = product div 100 in
     and_then (u64_sub (price listing) platform_fee) (\<lambda>seller_amount.
     and_then (coin_split payment platform_fee) (\<lambda>(payment1, platform_fee_coin).
     and_then (coin_split payment1 seller_amount) (\<lambda>(payment2, seller_payment).
     let listing1 = listing\<lparr>Listing.is_active := False\<rparr> in
     and_then (u64_add (total_sales registry) 1) (\<lambda>sales1.
     and_then (u64_add (total_volume registry) (price listing1)) (\<lambda>volume1.
     Inr ((registry\<lparr>total_sales := sales1, total_volume := volume1\<rparr>, listing1),
          (nft, platform_fee_coin, seller_payment, payment2))))))))))"

datatype transferred = TransferNFT AITwinNFT address | TransferCoin Coin address

definition complete_purchase ::
  "MarketplaceRegistry \<Rightarrow> Listing \<Rightarrow> AITwinNFT \<Rightarrow> Coin \<Rightarrow> TxContext
    \<Rightarrow> abort + ((MarketplaceRegistry \<times> Listing) \<times> transferred list)" where
  "complete_purchase registry listing nft payment ctx =
     (let buyer = sender ctx in
      and_then (purchase_access registry listing nft payment ctx)
        (\<lambda>((registry1, listing1), (nft_for_buyer, platform_fee, seller_payment, change)).
      Inr ((registry1, listing1),
           [TransferNFT nft_for_buyer buyer,
            TransferCoin platform_fee (platform_fee_recipient registry1),
            TransferCoin seller_payment (seller listing1)]
           @ (if 0 < change then [TransferCoin change buyer] else []))))"

definition get_listing_price :: "Listing \<Rightarrow> u64" where
  "get_listing_price listing = price listing"

definition is_listing_active :: "Listing \<Rightarrow> bool" where
  "is_listing_active listing = Listing.is_active listing"

definition get_seller :: "Listing \<Rightarrow> address" where
  "get_seller listing = seller listing"

section \<open>Module \<open>access_token\<close>\<close>

definition SECONDS_PER_DAY :: u64 where "SECONDS_PER_DAY = 86400"

record AccessToken =
  uid :: ID
  twin_id :: String
  owner :: address
  access_type :: u8
  granted_at :: u64
  expires_at :: u64
  encrypted_key :: "u8 list"
  purchase_listing_id :: ID
  is_active :: bool
  original_seller :: address

record AccessRegistry =
  uid :: ID
  total_granted :: u64
  active_accesses :: "address \<rightharpoonup> ID list"

record AdminCap =
  uid :: ID

record Clock =
  timestamp_ms :: u64

text \<open>\<open>std::vector\<close>: \<open>index_of\<close> gives the first position of an element,
  \<open>remove\<close> deletes the element at a position and aborts past the end.\<close>

fun index_of :: "'a list \<Rightarrow> 'a \<Rightarrow> bool \<times> nat" where
  "index_of [] e = (False, 0)"
| "index_of (x # xs) e =
     (if x = e then (True, 0)
      else (case index_of xs e of (found, i) \<Rightarrow> if found then (True, Suc i) else (False, 0)))"

definition vector_remove :: "'a list \<Rightarrow> nat \<Rightarrow> abort + 'a list" where
  "vector_remove v i =
     (if i < length v then Inr (take i v @ drop (Suc i) v) else Inl EINDEX_OUT_OF_BOUNDS)"

definition push_back :: "'a list \<Rightarrow> 'a \<Rightarrow> 'a list" where
  "push_back v e = v @ [e]"

definition mint_access_token ::
  "AccessRegistry \<Rightarrow> u8 list \<Rightarrow> address \<Rightarrow> u8 \<Rightarrow> u64 \<Rightarrow> u8 list \<Rightarrow> ID \<Rightarrow> address \<Rightarrow> Clock
    \<Rightarrow> TxContext \<Rightarrow> abort + (AccessRegistry \<times> AccessToken)" where
  "mint_access_token registry twin_id_bytes owner_arg access_type_arg duration_days
       encrypted_key_arg listing_id original_seller_arg clock ctx =
     (let current_time = timestamp_ms clock div 1000 in
      and_then (u64_mul duration_days SECONDS_PER_DAY) (\<lambda>duration_seconds.
      and_then (u64_add current_time duration_seconds) (\<lambda>expiry.
      and_then (utf8 twin_id_bytes) (\<lambda>twin_id_string.
      let token = \<lparr>AccessToken.uid = fst (object_new ctx),
                   twin_id = twin_id_string,
                   owner = owner_arg,
                   access_type = access_type_arg,
                   granted_at = current_time,
                   expires_at = expiry,
                   encrypted_key = encrypted_key_arg,
                   purchase_listing_id = listing_id,
                   is_active = True,
                   original_seller = original_seller_arg\<rparr>;
          token_id = AccessToken.uid token in
      and_then (if \<not> table_contains (active_accesses registry) owner_arg
                then table_add (active_accesses registry) owner_arg []
                else Inr (active_accesses registry)) (\<lambda>accesses1.
      and_then (table_borrow accesses1 owner_arg) (\<lambda>owner_tokens.
      let accesses2 = accesses1(owner_arg \<mapsto> push_back owner_tokens token_id) in
      and_then (u64_add (total_granted registry) 1) (\<lambda>granted1.
      Inr (registry\<lparr>active_accesses := accesses2, total_granted := granted1\<rparr>, token))))))))"

definition mint_and_transfer_access ::
  "AccessRegistry \<Rightarrow> u8 list \<Rightarrow> address \<Rightarrow> u8 \<Rightarrow> u64 \<Rightarrow> u8 list \<Rightarrow> ID \<Rightarrow> address \<Rightarrow> Clock
    \<Rightarrow> TxContext \<Rightarrow> abort + (AccessRegistry \<times> (AccessToken \<times> address))" where
  "mint_and_transfer_access registry twin_id_bytes owner_arg access_type_arg duration_days
       encrypted_key_arg listing_id original_seller_arg clock ctx =
     and_then (mint_access_token registry twin_id_bytes owner_arg access_type_arg duration_days
                 encrypted_key_arg listing_id original_seller_arg clock ctx)
       (\<lambda>(registry1, token). Inr (registry1, (token, owner_arg)))"

definition revoke_access ::
  "AdminCap \<Rightarrow> AccessToken \<Rightarrow> u8 list \<Rightarrow> TxContext \<Rightarrow> abort + AccessToken" where
  "revoke_access admin token reason ctx =
     and_then (assert_that (sender ctx = original_seller token) ERROR_NOT_AUTHORIZED) (\<lambda>_.
     let token1 = token\<lparr>AccessToken.is_active := False\<rparr> in
     and_then (utf8 reason) (\<lambda>_.
     Inr token1))"

definition check_access :: "AccessToken \<Rightarrow> Clock \<Rightarrow> bool" where
  "check_access token clock =
     (if \<not> AccessToken.is_active token then False
      else (let current_time = timestamp_ms clock div 1000 in
            current_time < expires_at token))"

definition transfer_access ::
  "AccessRegistry \<Rightarrow> AccessToken \<Rightarrow> address \<Rightarrow> TxContext
    \<Rightarrow> abort + (AccessRegistry \<times> (AccessToken \<times> address))" where
  "transfer_access registry token recipient ctx =
     (let sender_addr = sender ctx;
          token_id = AccessToken.uid token in
      and_then (if table_contains (active_accesses registry) sender_addr
                then and_then (table_borrow (active_accesses registry) sender_addr)
                       (\<lambda>sender_tokens.
                     case index_of sender_tokens token_id of
                       (found, index) \<Rightarrow>
                         if found
                         then and_then (vector_remove sender_tokens index) (\<lambda>rest.
                              Inr ((active_accesses registry)(sender_addr \<mapsto> rest)))
                         else Inr (active_accesses registry))
                else Inr (active_accesses registry)) (\<lambda>accesses1.
      and_then (if \<not> table_contains accesses1 recipient
                then table_add accesses1 recipient []
                else Inr accesses1) (\<lambda>accesses2.
      and_then (table_borrow accesses2 recipient) (\<lambda>recipient_tokens.
      let accesses3 = accesses2(recipient \<mapsto> push_back recipient_tokens token_id) in
      Inr (registry\<lparr>active_accesses := accesses3\<rparr>, (token, recipient))))))"

definition get_expires_at :: "AccessToken \<Rightarrow> u64" where
  "get_expires_at token = expires_at token"

section \<open>Module \<open>revenue_distribution\<close>\<close>

record RevenuePool =
  uid :: ID
  balances :: "address \<rightharpoonup> u64"
  total_platform_fees :: u64
  platform_fee_recipient :: address

definition record_sale ::
  "RevenuePool \<Rightarrow> address \<Rightarrow> Coin \<Rightarrow> Coin \<Rightarrow> TxContext \<Rightarrow> abort + RevenuePool" where
  "record_sale pool seller_addr seller_payment platform_fee ctx =
     and_then (if \<not> table_contains (balances pool) seller_addr
               then table_add (balances pool) seller_addr 0
               else Inr (balances pool)) (\<lambda>balances1.
     and_then (table_borrow balances1 seller_addr) (\<lambda>seller_balance.
     and_then (balance_join seller_balance seller_payment) (\<lambda>seller_balance1.
     and_then (balance_join (total_platform_fees pool) platform_fee) (\<lambda>fees1.
     Inr (pool\<lparr>balances := balances1(seller_addr \<mapsto> seller_balance1),
               total_platform_fees := fees1\<rparr>)))))"

text \<open>\<open>withdraw_earnings\<close> and \<open>withdraw_platform_fees\<close> return the pool and the
  coin sent to the caller.\<close>

definition withdraw_earnings ::
  "RevenuePool \<Rightarrow> TxContext \<Rightarrow> abort + (RevenuePool \<times> (Coin \<times> address))" where
  "withdraw_earnings pool ctx =
     (let user = sender ctx in
      and_then (assert_that (table_contains (balances pool) user) ERROR_NO_EARNINGS) (\<lambda>_.
      and_then (table_borrow (balances pool) user) (\<lambda>user_balance.
      let balance_value = user_balance in
      and_then (assert_that (0 < balance_value) ERROR_INSUFFICIENT_BALANCE) (\<lambda>_.
      and_then (balance_split user_balance balance_value) (\<lambda>(user_balance1, withdrawn_balance).
      Inr (pool\<lparr>balances := (balances pool)(user \<mapsto> user_balance1)\<rparr>,
           (withdrawn_balance, user)))))))"

definition withdraw_platform_fees ::
  "RevenuePool \<Rightarrow> u64 \<Rightarrow> TxContext \<Rightarrow> abort + (RevenuePool \<times> (Coin \<times> address))" where
  "withdraw_platform_fees pool amount ctx =
     (let sender_addr = sender ctx in
      and_then (assert_that (sender_addr = RevenuePool.platform_fee_recipient pool)
                  ERROR_NO_EARNINGS) (\<lambda>_.
      let total_fees = total_platform_fees pool in
      and_then (assert_that (amount \<le> total_fees) ERROR_INSUFFICIENT_BALANCE) (\<lambda>_.
      and_then (balance_split (total_platform_fees pool) amount) (\<lambda>(fees1, withdrawn_balance).
      Inr (pool\<lparr>total_platform_fees := fees1\<rparr>, (withdrawn_balance, sender_addr))))))"

definition get_balance :: "RevenuePool \<Rightarrow> address \<Rightarrow> u64" where
  "get_balance pool user =
     (if \<not> table_contains (balances pool) user then 0
      else (case balances pool user of Some b \<Rightarrow> b | None \<Rightarrow> 0))"

definition get_platform_fees :: "RevenuePool \<Rightarrow> u64" where
  "get_platform_fees pool = total_platform_fees pool"

section \<open>Transactions\<close>

text \<open>A transaction that aborts changes no object: the state after a call is the
  state the call returns, or the old state when the call aborts.\<close>

definition state_after :: "'s \<Rightarrow> abort + ('s \<times> 'r) \<Rightarrow> 's" where
  "state_after s r = (case r of Inl e \<Rightarrow> s | Inr (s', out) \<Rightarrow> s')"

text \<open>
  The calls of the \<open>marketplace\<close> module that take a listing by mutable reference.
  The registry is shared by all listings and changes with their transactions, so each
  call carries the registry as it stands when the call is made; what a sequence of calls
  does to one listing is then read off the listing alone.
\<close>

datatype call =
    Update u64 "u8 list" TxContext
  | Delist MarketplaceRegistry TxContext
  | Purchase MarketplaceRegistry AITwinNFT Coin TxContext
  | Complete MarketplaceRegistry AITwinNFT Coin TxContext

fun outcome :: "Listing \<Rightarrow> call \<Rightarrow> abort + Listing" where
  "outcome l (Update new_price new_terms ctx) = update_listing l new_price new_terms ctx"
| "outcome l (Delist registry ctx) =
     and_then (delist_ai_twin registry l ctx) (\<lambda>(registry1, l1). Inr l1)"
| "outcome l (Purchase registry nft payment ctx) =
     and_then (purchase_access registry l nft payment ctx) (\<lambda>((registry1, l1), out). Inr l1)"
| "outcome l (Complete registry nft payment ctx) =
     and_then (complete_purchase registry l nft payment ctx) (\<lambda>((registry1, l1), out). Inr l1)"

definition step :: "Listing \<Rightarrow> call \<Rightarrow> Listing" where
  "step l c = (case outcome l c of Inl e \<Rightarrow> l | Inr l1 \<Rightarrow> l1)"

fun run :: "Listing \<Rightarrow> call list \<Rightarrow> Listing" where
  "run l [] = l"
| "run l (c # cs) = run (step l c) cs"

fun deactivating :: "call \<Rightarrow> bool" where
  "deactivating (Update new_price new_terms ctx) = False"
| "deactivating (Delist registry ctx) = True"
| "deactivating (Purchase registry nft payment ctx) = True"
| "deactivating (Complete registry nft payment ctx) = True"

definition succeeds :: "Listing \<Rightarrow> call \<Rightarrow> bool" where
  "succeeds l c = (case outcome l c of Inl e \<Rightarrow> False | Inr l1 \<Rightarrow> True)"

text \<open>The number of delist and purchase calls of a sequence that go through.\<close>

fun deactivations :: "Listing \<Rightarrow> call list \<Rightarrow> nat" where
  "deactivations l [] = 0"
| "deactivations l (c # cs) =
     (if deactivating c \<and> succeeds l c then 1 else 0) + deactivations (step l c) cs"

section \<open>Sample objects\<close>

definition ctx_of :: "address \<Rightarrow> TxContext" where
  "ctx_of a = \<lparr>sender = a, tx_hash = 7, epoch = 0, ids_created = 0\<rparr>"

definition sample_nft :: AITwinNFT where
  "sample_nft = \<lparr>AITwinNFT.uid = (1, 0), twin_id = [0x41], creator = 1, name = [0x61],
                 description = [], training_data_blob_id = [0x62], created_at = 0,
                 metadata = []\<rparr>"

definition sample_registry :: MarketplaceRegistry where
  "sample_registry = (marketplace_init (ctx_of 9))\<lparr>platform_fee_percent := 10\<rparr>"

definition sample_listing :: Listing where
  "sample_listing = \<lparr>Listing.uid = (7, 0), twin_id = [0x41], nft_id = (1, 0), seller = 1,
                     price = 100, access_type = ACCESS_TYPE_FULL, access_duration_days = 0,
                     terms = [], is_active = True, created_at = 0\<rparr>"

definition sold_listing :: Listing where
  "sold_listing = sample_listing\<lparr>Listing.is_active := False\<rparr>"

definition sample_access_registry :: AccessRegistry where
  "sample_access_registry =
     \<lparr>AccessRegistry.uid = (3, 0), total_granted = 0, active_accesses = Map.empty\<rparr>"

definition sample_token :: "u8 \<Rightarrow> u64 \<Rightarrow> u64 \<Rightarrow> AccessToken" where
  "sample_token kind granted expiry =
     \<lparr>AccessToken.uid = (7, 0), twin_id = [0x41], owner = 2, access_type = kind,
      granted_at = granted, expires_at = expiry, encrypted_key = [0x6B],
      purchase_listing_id = (7, 0), is_active = True, original_seller = 1\<rparr>"

definition sample_pool :: "(address \<rightharpoonup> u64) \<Rightarrow> RevenuePool" where
  "sample_pool bs = \<lparr>RevenuePool.uid = (4, 0), balances = bs, total_platform_fees = 0,
                     platform_fee_recipient = 9\<rparr>"

definition sample_twin_registry :: "(String \<rightharpoonup> address) \<Rightarrow> AITwinRegistry" where
  "sample_twin_registry ts = \<lparr>AITwinRegistry.uid = (5, 0), total_minted = 1, twins = ts\<rparr>"

definition listed_registry :: MarketplaceRegistry where
  "listed_registry =
     sample_registry\<lparr>listings := (listings sample_registry)((7, 0) \<mapsto> True),
                      total_listings := 1\<rparr>"

definition granted_registry :: AccessRegistry where
  "granted_registry =
     sample_access_registry\<lparr>active_accesses := [2 \<mapsto> [(7, 0)]], total_granted := 1\<rparr>"

definition at_seconds :: "nat \<Rightarrow> Clock" where
  "at_seconds s = \<lparr>timestamp_ms = of_nat (s * 1000)\<rparr>"

definition indexed_registry :: "(address \<rightharpoonup> ID list) \<Rightarrow> AccessRegistry" where
  "indexed_registry index = sample_access_registry\<lparr>active_accesses := index, total_granted := 1\<rparr>"

section \<open>Reading results of the primitives\<close>

lemma and_then_Inr_iff:
  "and_then r k = Inr y \<longleftrightarrow> (\<exists>v. r = Inr v \<and> k v = Inr y)"
  by (cases r) (simp_all add: and_then_def)

lemma and_then_Inl_iff:
  "and_then r k = Inl e \<longleftrightarrow> r = Inl e \<or> (\<exists>v. r = Inr v \<and> k v = Inl e)"
  by (cases r) (simp_all add: and_then_def)

lemma assert_that_Inr_iff: "assert_that c e = Inr u \<longleftrightarrow> c"
  by (simp add: assert_that_def)

lemma assert_that_Inl_iff: "assert_that c e = Inl e' \<longleftrightarrow> \<not> c \<and> e' = e"
  by (auto simp add: assert_that_def)

lemma u64_mul_Inr_iff: "u64_mul a b = Inr c \<longleftrightarrow> unat a * unat b < 2 ^ 64 \<and> c = a * b"
  by (auto simp: u64_mul_def)

lemma u64_add_Inr_iff: "u64_add a b = Inr c \<longleftrightarrow> unat a + unat b < 2 ^ 64 \<and> c = a + b"
  by (auto simp: u64_add_def)

lemma u64_sub_Inr_iff: "u64_sub a b = Inr c \<longleftrightarrow> b \<le> a \<and> c = a - b"
  by (auto simp: u64_sub_def)

lemma coin_split_Inr_iff: "coin_split c a = Inr (r, t) \<longleftrightarrow> a \<le> c \<and> r = c - a \<and> t = a"
  by (auto simp: coin_split_def)

lemma unat_u64_mul: "unat a * unat b < 2 ^ 64 \<Longrightarrow> unat (a * b :: u64) = unat a * unat b"
  by (simp add: unat_mult_lem[THEN iffD1])

lemma unat_u64_add: "unat a + unat b < 2 ^ 64 \<Longrightarrow> unat (a + b :: u64) = unat a + unat b"
  by (simp add: unat_add_lem[THEN iffD1])

lemma unat_u64_div100: "unat (a div 100 :: u64) = unat a div 100"
  by (simp add: unat_div)

section \<open>Purchases\<close>

text \<open>A purchase goes through exactly when every check and every checked operation
  of \<open>purchase_access\<close> does; the result is then determined.\<close>

lemma purchase_access_Inr_iff:
  "purchase_access registry listing nft payment ctx
     = Inr ((registry', listing'), (nft', fee, seller_amt, change))
   \<longleftrightarrow>
   Listing.is_active listing \<and> price listing \<le> payment
   \<and> unat (price listing) * unat (platform_fee_percent registry) < 2 ^ 64
   \<and> fee = (price listing * platform_fee_percent registry) div 100
   \<and> fee \<le> price listing
   \<and> seller_amt = price listing - fee
   \<and> fee \<le> payment \<and> seller_amt \<le> payment - fee
   \<and> change = payment - fee - seller_amt
   \<and> unat (total_sales registry) + 1 < 2 ^ 64
   \<and> unat (total_volume registry) + unat (price listing) < 2 ^ 64
   \<and> listing' = listing\<lparr>Listing.is_active := False\<rparr>
   \<and> registry' = registry\<lparr>total_sales := total_sales registry + 1,
                           total_volume := total_volume registry + price listing\<rparr>
   \<and> nft' = nft"
  unfolding purchase_access_def Let_def
  by (auto simp: and_then_Inr_iff assert_that_Inr_iff u64_mul_Inr_iff u64_sub_Inr_iff
        coin_split_Inr_iff u64_add_Inr_iff)

lemma purchase_access_inactive:
  "\<not> Listing.is_active listing \<Longrightarrow>
   purchase_access registry listing nft payment ctx = Inl ERROR_LISTING_INACTIVE"
  by (simp add: purchase_access_def and_then_def assert_that_def)

lemma purchase_access_underpaid:
  "Listing.is_active listing \<Longrightarrow> payment < price listing \<Longrightarrow>
   purchase_access registry listing nft payment ctx = Inl ERROR_INSUFFICIENT_PAYMENT"
  by (simp add: purchase_access_def and_then_def assert_that_def not_le[symmetric])

text \<open>When the fee percentage is at most 100 the fee is at most the price, and the
  two coins split off the payment add up to the price, so neither split can abort.\<close>

lemma fee_le_price:
  fixes p f :: u64
  assumes "unat p * unat f < 2 ^ 64" "f \<le> 100"
  shows "(p * f) div 100 \<le> p"
proof -
  have "unat f \<le> 100" using assms(2) by (simp add: word_le_nat_alt)
  then have "unat p * unat f \<le> unat p * 100" by simp
  then have "unat p * unat f div 100 \<le> unat p"
    by (metis div_le_mono nonzero_mult_div_cancel_right zero_neq_numeral)
  then show ?thesis
    by (simp add: word_le_nat_alt unat_u64_div100 unat_u64_mul[OF assms(1)])
qed

lemma purchase_access_succeeds:
  assumes "Listing.is_active listing" "price listing \<le> payment"
    and "unat (price listing) * unat (platform_fee_percent registry) < 2 ^ 64"
    and "platform_fee_percent registry \<le> 100"
    and "unat (total_sales registry) + 1 < 2 ^ 64"
    and "unat (total_volume registry) + unat (price listing) < 2 ^ 64"
  shows "\<exists>registry' fee seller_amt change.
           purchase_access registry listing nft payment ctx
           = Inr ((registry', listing\<lparr>Listing.is_active := False\<rparr>),
                  (nft, fee, seller_amt, change))"
proof -
  let ?fee = "(price listing * platform_fee_percent registry) div 100"
  have le: "?fee \<le> price listing" by (rule fee_le_price[OF assms(3,4)])
  then have le2: "?fee \<le> payment" using assms(2) by simp
  have "unat (price listing - ?fee) \<le> unat (payment - ?fee)"
    using le le2 assms(2) by (simp add: unat_sub word_le_nat_alt)
  then have "price listing - ?fee \<le> payment - ?fee" by (simp add: word_le_nat_alt)
  with assms le le2 show ?thesis
    by (simp add: purchase_access_Inr_iff)
qed

lemma sample_purchase:
  "purchase_access sample_registry sample_listing sample_nft 100 (ctx_of 2)
   = Inr ((sample_registry\<lparr>total_sales := 1, total_volume := 100\<rparr>, sold_listing),
          (sample_nft, 10, 90, 0))"
  by (simp add: purchase_access_Inr_iff sample_registry_def sample_listing_def sold_listing_def
        marketplace_init_def)

text \<open>
  Claim C2. Every purchase that goes through splits the price exactly: the platform fee
  is the price times the registry's fee percentage, divided by 100 and rounded down, the
  seller's amount is the price minus that fee, and the two add up to the price. The
  values are read as natural numbers, so the equations are free of wrap-around. The
  scenario of the specification (price 100, fee 10 percent) gives 10 and 90.
\<close>

theorem purchase_fee_split:
  assumes "purchase_access registry listing nft payment ctx
           = Inr ((registry', listing'), (nft', fee, seller_amt, change))"
  shows "unat fee = unat (price listing) * unat (platform_fee_percent registry) div 100
         \<and> unat seller_amt = unat (price listing) - unat fee
         \<and> unat fee + unat seller_amt = unat (price listing)"
proof -
  from assms have ok: "unat (price listing) * unat (platform_fee_percent registry) < 2 ^ 64"
    and fee: "fee = (price listing * platform_fee_percent registry) div 100"
    and le: "fee \<le> price listing"
    and sa: "seller_amt = price listing - fee"
    unfolding purchase_access_Inr_iff by blast+
  have 1: "unat fee = unat (price listing) * unat (platform_fee_percent registry) div 100"
    by (simp add: fee unat_u64_div100 unat_u64_mul[OF ok])
  have 2: "unat seller_amt = unat (price listing) - unat fee"
    by (simp add: sa unat_sub le)
  have "unat fee \<le> unat (price listing)"
    using le by (simp add: word_le_nat_alt)
  with 1 2 show ?thesis by simp
qed

theorem purchase_fee_split_witness:
  "purchase_access sample_registry sample_listing sample_nft 100 (ctx_of 2)
   = Inr ((sample_registry\<lparr>total_sales := 1, total_volume := 100\<rparr>, sold_listing),
          (sample_nft, 10, 90, 0))
   \<and> unat (10 :: u64)
       = unat (price sample_listing) * unat (platform_fee_percent sample_registry) div 100
   \<and> unat (90 :: u64) = unat (price sample_listing) - unat (10 :: u64)
   \<and> unat (10 :: u64) + unat (90 :: u64) = unat (price sample_listing)"
  using purchase_fee_split[OF sample_purchase] sample_purchase by blast

section \<open>One deactivation per listing\<close>

lemma complete_purchase_Inr_iff:
  "complete_purchase registry listing nft payment ctx = Inr ((registry', listing'), ts)
   \<longleftrightarrow> (\<exists>nft' fee seller_amt change.
          purchase_access registry listing nft payment ctx
            = Inr ((registry', listing'), (nft', fee, seller_amt, change))
          \<and> ts = [TransferNFT nft' (sender ctx),
                   TransferCoin fee (MarketplaceRegistry.platform_fee_recipient registry'),
                   TransferCoin seller_amt (seller listing')]
                  @ (if 0 < change then [TransferCoin change (sender ctx)] else []))"
  unfolding complete_purchase_def Let_def
  by (auto simp: and_then_Inr_iff)

lemma complete_purchase_Inl_iff:
  "complete_purchase registry listing nft payment ctx = Inl e
   \<longleftrightarrow> purchase_access registry listing nft payment ctx = Inl e"
  unfolding complete_purchase_def Let_def
  by (auto simp: and_then_Inl_iff split: prod.splits)

lemma delist_ai_twin_Inr_iff:
  "delist_ai_twin registry listing ctx = Inr (registry', listing')
   \<longleftrightarrow> sender ctx = seller listing \<and> Listing.is_active listing
       \<and> listing' = listing\<lparr>Listing.is_active := False\<rparr>
       \<and> registry' = registry\<lparr>listings := (listings registry)(Listing.uid listing := None)\<rparr>"
  unfolding delist_ai_twin_def Let_def
  by (auto simp: and_then_Inr_iff assert_that_Inr_iff table_contains_def table_remove_def
        fun_upd_idem split: option.splits)

lemma delist_ai_twin_inactive:
  "\<not> Listing.is_active listing \<Longrightarrow>
   delist_ai_twin registry listing ctx
   = Inl (if sender ctx = seller listing then ERROR_LISTING_INACTIVE else ERROR_NOT_SELLER)"
  by (simp add: delist_ai_twin_def and_then_def assert_that_def)

lemma update_listing_Inr_iff:
  "update_listing listing new_price new_terms ctx = Inr listing'
   \<longleftrightarrow> sender ctx = seller listing \<and> Listing.is_active listing
       \<and> internal_check_utf8 new_terms
       \<and> listing' = listing\<lparr>price := new_price, terms := new_terms\<rparr>"
  unfolding update_listing_def
  by (auto simp: and_then_Inr_iff assert_that_Inr_iff utf8_def)

lemma outcome_Inr_active:
  "outcome l c = Inr l' \<Longrightarrow> Listing.is_active l"
  by (cases c)
     (auto simp: and_then_Inr_iff update_listing_Inr_iff delist_ai_twin_Inr_iff
        purchase_access_Inr_iff complete_purchase_Inr_iff)

lemma outcome_deactivating:
  "deactivating c \<Longrightarrow> outcome l c = Inr l' \<Longrightarrow> \<not> Listing.is_active l'"
  by (cases c)
     (auto simp: and_then_Inr_iff delist_ai_twin_Inr_iff
        purchase_access_Inr_iff complete_purchase_Inr_iff)

lemma step_inactive: "\<not> Listing.is_active l \<Longrightarrow> step l c = l"
  using outcome_Inr_active[of l c] by (auto simp: step_def split: sum.splits)

lemma run_inactive: "\<not> Listing.is_active l \<Longrightarrow> run l cs = l"
  by (induction cs) (simp_all add: step_inactive)

lemma succeeds_active: "succeeds l c \<Longrightarrow> Listing.is_active l"
  using outcome_Inr_active[of l c] by (auto simp: succeeds_def split: sum.splits)

lemma deactivations_inactive: "\<not> Listing.is_active l \<Longrightarrow> deactivations l cs = 0"
  using succeeds_active by (induction cs) (auto simp: step_inactive)

lemma step_deactivated:
  "deactivating c \<Longrightarrow> succeeds l c \<Longrightarrow> \<not> Listing.is_active (step l c)"
  using outcome_deactivating[of c l] by (auto simp: step_def succeeds_def split: sum.splits)

lemma deactivations_le_1: "deactivations l cs \<le> 1"
proof (induction cs arbitrary: l)
  case Nil
  show ?case by simp
next
  case (Cons c cs)
  show ?case
  proof (cases "deactivating c \<and> succeeds l c")
    case True
    then have "deactivations (step l c) cs = 0"
      by (simp add: step_deactivated deactivations_inactive)
    with True show ?thesis by simp
  next
    case False
    with Cons.IH[of "step l c"] show ?thesis by auto
  qed
qed

text \<open>
  Claim C1 (amended). In every sequence of calls on a listing, from any starting state
  and whatever registry each call is given, at most one delist or purchase call goes
  through. Once one has gone through, the listing is inactive after any later calls;
  every later \<open>purchase_access\<close> and \<open>complete_purchase\<close> aborts with
  \<open>ERROR_LISTING_INACTIVE\<close>, and every later \<open>delist_ai_twin\<close> aborts, with
  \<open>ERROR_LISTING_INACTIVE\<close> when the caller is the seller and with
  \<open>ERROR_NOT_SELLER\<close> otherwise, because the seller check comes first.
\<close>

theorem one_deactivation_per_listing:
  "deactivations l cs \<le> 1
   \<and> (deactivating c \<and> succeeds l c \<longrightarrow>
        \<not> Listing.is_active (run (step l c) cs)
        \<and> purchase_access registry (run (step l c) cs) nft payment ctx
            = Inl ERROR_LISTING_INACTIVE
        \<and> complete_purchase registry (run (step l c) cs) nft payment ctx
            = Inl ERROR_LISTING_INACTIVE
        \<and> delist_ai_twin registry (run (step l c) cs) ctx
            = Inl (if sender ctx = seller (run (step l c) cs)
                   then ERROR_LISTING_INACTIVE else ERROR_NOT_SELLER))"
proof (intro conjI impI)
  show "deactivations l cs \<le> 1" by (rule deactivations_le_1)
next
  assume "deactivating c \<and> succeeds l c"
  then have off: "\<not> Listing.is_active (step l c)" by (simp add: step_deactivated)
  then have same: "run (step l c) cs = step l c" by (rule run_inactive)
  show "\<not> Listing.is_active (run (step l c) cs)" using off same by simp
  show "purchase_access registry (run (step l c) cs) nft payment ctx = Inl ERROR_LISTING_INACTIVE"
    using off same by (simp add: purchase_access_inactive)
  show "complete_purchase registry (run (step l c) cs) nft payment ctx = Inl ERROR_LISTING_INACTIVE"
    using off same by (simp add: complete_purchase_Inl_iff purchase_access_inactive)
  show "delist_ai_twin registry (run (step l c) cs) ctx
            = Inl (if sender ctx = seller (run (step l c) cs)
                   then ERROR_LISTING_INACTIVE else ERROR_NOT_SELLER)"
    using off same by (simp add: delist_ai_twin_inactive)
qed

lemma sample_step:
  "step sample_listing (Purchase sample_registry sample_nft 100 (ctx_of 2)) = sold_listing"
  by (simp add: step_def sample_purchase and_then_def)

lemma sample_succeeds:
  "succeeds sample_listing (Purchase sample_registry sample_nft 100 (ctx_of 2))"
  by (simp add: succeeds_def sample_purchase and_then_def)

theorem one_deactivation_per_listing_witness:
  "deactivating (Purchase sample_registry sample_nft 100 (ctx_of 2))
   \<and> succeeds sample_listing (Purchase sample_registry sample_nft 100 (ctx_of 2))
   \<and> purchase_access sample_registry
        (run (step sample_listing (Purchase sample_registry sample_nft 100 (ctx_of 2)))
           [Update 5 [] (ctx_of 1)])
        sample_nft 100 (ctx_of 1) = Inl ERROR_LISTING_INACTIVE
   \<and> delist_ai_twin sample_registry
        (run (step sample_listing (Purchase sample_registry sample_nft 100 (ctx_of 2)))
           [Update 5 [] (ctx_of 1)])
        (ctx_of 1) = Inl ERROR_LISTING_INACTIVE"
proof -
  let ?c = "Purchase sample_registry sample_nft 100 (ctx_of 2)"
  have first: "deactivating ?c \<and> succeeds sample_listing ?c"
    using sample_succeeds by simp
  have off: "\<not> Listing.is_active sold_listing" by (simp add: sold_listing_def)
  have later: "run (step sample_listing ?c) [Update 5 [] (ctx_of 1)] = sold_listing"
    by (simp only: sample_step run_inactive[OF off])
  have caller: "sender (ctx_of 1) = seller sold_listing"
    by (simp add: ctx_of_def sold_listing_def sample_listing_def)
  show ?thesis
    using one_deactivation_per_listing
            [of sample_listing "[Update 5 [] (ctx_of 1)]" ?c
                sample_registry sample_nft 100 "ctx_of 1"]
          first
    by (simp only: later caller if_True simp_thms)
qed

text \<open>
  The claim as stated (every later delist aborts with the inactive error) fails for a
  caller who is not the seller: after the sample purchase, a delist by the buyer aborts
  with \<open>ERROR_NOT_SELLER\<close>.
\<close>

theorem later_delist_not_inactive_counterexample:
  "purchase_access sample_registry sample_listing sample_nft 100 (ctx_of 2)
     = Inr ((sample_registry\<lparr>total_sales := 1, total_volume := 100\<rparr>, sold_listing),
            (sample_nft, 10, 90, 0))
   \<and> delist_ai_twin (sample_registry\<lparr>total_sales := 1, total_volume := 100\<rparr>) sold_listing
        (ctx_of 2) = Inl ERROR_NOT_SELLER
   \<and> delist_ai_twin (sample_registry\<lparr>total_sales := 1, total_volume := 100\<rparr>) sold_listing
        (ctx_of 2) \<noteq> Inl ERROR_LISTING_INACTIVE"
proof -
  have off: "\<not> Listing.is_active sold_listing" by (simp add: sold_listing_def)
  have caller: "sender (ctx_of 2) \<noteq> seller sold_listing"
    by (simp add: ctx_of_def sold_listing_def sample_listing_def)
  show ?thesis
    by (simp add: sample_purchase delist_ai_twin_inactive[OF off] caller)
qed

section \<open>Underpaid purchases\<close>

lemma complete_purchase_underpaid:
  "Listing.is_active listing \<Longrightarrow> payment < price listing \<Longrightarrow>
   complete_purchase registry listing nft payment ctx = Inl ERROR_INSUFFICIENT_PAYMENT"
  by (simp add: complete_purchase_Inl_iff purchase_access_underpaid)

text \<open>
  Claim C5. A purchase of an active listing with a payment below the price aborts with
  \<open>ERROR_INSUFFICIENT_PAYMENT\<close>, through \<open>purchase_access\<close> and through
  \<open>complete_purchase\<close>. The registry and the listing after the call are the ones
  before it, so the listing is still active, and a later purchase with a payment of at
  least the price goes through (given that the fee percentage is at most 100 and that
  neither the fee product nor the registry's two counters overflow 64 bits).
\<close>

theorem underpaid_purchase_changes_nothing:
  assumes "Listing.is_active listing" and "payment < price listing"
  shows "purchase_access registry listing nft payment ctx = Inl ERROR_INSUFFICIENT_PAYMENT
     \<and> complete_purchase registry listing nft payment ctx = Inl ERROR_INSUFFICIENT_PAYMENT
     \<and> state_after (registry, listing) (purchase_access registry listing nft payment ctx)
         = (registry, listing)
     \<and> Listing.is_active
         (snd (state_after (registry, listing)
                 (purchase_access registry listing nft payment ctx)))
     \<and> (price listing \<le> payment'
          \<and> unat (price listing) * unat (platform_fee_percent registry) < 2 ^ 64
          \<and> platform_fee_percent registry \<le> 100
          \<and> unat (total_sales registry) + 1 < 2 ^ 64
          \<and> unat (total_volume registry) + unat (price listing) < 2 ^ 64
          \<longrightarrow> (\<exists>result.
                 purchase_access
                   (fst (state_after (registry, listing)
                           (purchase_access registry listing nft payment ctx)))
                   (snd (state_after (registry, listing)
                           (purchase_access registry listing nft payment ctx)))
                   nft payment' ctx'
                 = Inr result))"
proof -
  have fails: "purchase_access registry listing nft payment ctx = Inl ERROR_INSUFFICIENT_PAYMENT"
    using assms by (rule purchase_access_underpaid)
  have same: "state_after (registry, listing) (purchase_access registry listing nft payment ctx)
              = (registry, listing)"
    by (simp add: fails state_after_def)
  have again: "\<exists>result. purchase_access registry listing nft payment' ctx' = Inr result"
    if "price listing \<le> payment'"
      "unat (price listing) * unat (platform_fee_percent registry) < 2 ^ 64"
      "platform_fee_percent registry \<le> 100"
      "unat (total_sales registry) + 1 < 2 ^ 64"
      "unat (total_volume registry) + unat (price listing) < 2 ^ 64"
    using purchase_access_succeeds[OF assms(1) that, of nft ctx'] by blast
  show ?thesis
    unfolding same fst_conv snd_conv
    using fails assms again complete_purchase_underpaid[OF assms] by blast
qed

theorem underpaid_purchase_changes_nothing_witness:
  "Listing.is_active sample_listing \<and> (50 :: u64) < price sample_listing
   \<and> purchase_access sample_registry sample_listing sample_nft 50 (ctx_of 2)
       = Inl ERROR_INSUFFICIENT_PAYMENT
   \<and> state_after (sample_registry, sample_listing)
        (purchase_access sample_registry sample_listing sample_nft 50 (ctx_of 2))
       = (sample_registry, sample_listing)
   \<and> (\<exists>result.
         purchase_access
           (fst (state_after (sample_registry, sample_listing)
                   (purchase_access sample_registry sample_listing sample_nft 50 (ctx_of 2))))
           (snd (state_after (sample_registry, sample_listing)
                   (purchase_access sample_registry sample_listing sample_nft 50 (ctx_of 2))))
           sample_nft 100 (ctx_of 2)
         = Inr result)"
proof -
  have active: "Listing.is_active sample_listing" by (simp add: sample_listing_def)
  have low: "(50 :: u64) < price sample_listing" by (simp add: sample_listing_def)
  have enough: "price sample_listing \<le> 100
          \<and> unat (price sample_listing) * unat (platform_fee_percent sample_registry) < 2 ^ 64
          \<and> platform_fee_percent sample_registry \<le> 100
          \<and> unat (total_sales sample_registry) + 1 < 2 ^ 64
          \<and> unat (total_volume sample_registry) + unat (price sample_listing) < 2 ^ 64"
    by (simp add: sample_listing_def sample_registry_def marketplace_init_def)
  show ?thesis
    using underpaid_purchase_changes_nothing
            [OF active low, of sample_registry sample_nft "ctx_of 2" 100 "ctx_of 2"]
          active low enough
    by blast
qed

section \<open>The registry's table of listings\<close>

lemma table_add_Inr_iff: "table_add t k v = Inr t' \<longleftrightarrow> t k = None \<and> t' = t(k \<mapsto> v)"
  by (auto simp: table_add_def split: option.splits)

lemma utf8_Inr_iff: "utf8 bytes = Inr s \<longleftrightarrow> internal_check_utf8 bytes \<and> s = bytes"
  by (auto simp: utf8_def)

lemma list_ai_twin_Inr_iff:
  "list_ai_twin registry nft p a d t ctx = Inr (registry', listing)
   \<longleftrightarrow> (a = ACCESS_TYPE_FULL \<or> a = ACCESS_TYPE_LIMITED \<or> a = ACCESS_TYPE_TEMPORARY)
       \<and> internal_check_utf8 t
       \<and> listings registry (tx_hash ctx, ids_created ctx) = None
       \<and> unat (total_listings registry) + 1 < 2 ^ 64
       \<and> listing = \<lparr>Listing.uid = (tx_hash ctx, ids_created ctx),
                      twin_id = AITwinNFT.twin_id nft,
                      nft_id = AITwinNFT.uid nft,
                      seller = sender ctx,
                      price = p,
                      access_type = a,
                      access_duration_days = d,
                      terms = t,
                      is_active = True,
                      created_at = epoch ctx\<rparr>
       \<and> registry' = registry\<lparr>listings := (listings registry)((tx_hash ctx, ids_created ctx) \<mapsto> True),
                               total_listings := total_listings registry + 1\<rparr>"
  unfolding list_ai_twin_def Let_def object_new_def
  by (auto simp: and_then_Inr_iff assert_that_Inr_iff utf8_Inr_iff table_add_Inr_iff
        u64_add_Inr_iff)

lemma sample_list:
  "list_ai_twin sample_registry sample_nft 100 ACCESS_TYPE_FULL 0 [] (ctx_of 1)
   = Inr (listed_registry, sample_listing)"
  by (simp add: list_ai_twin_Inr_iff sample_registry_def sample_listing_def sample_nft_def
        listed_registry_def marketplace_init_def ctx_of_def)

lemma listed_purchase:
  "purchase_access listed_registry sample_listing sample_nft 100 (ctx_of 2)
   = Inr ((listed_registry\<lparr>total_sales := 1, total_volume := 100\<rparr>, sold_listing),
          (sample_nft, 10, 90, 0))"
  by (simp add: purchase_access_Inr_iff sample_registry_def sample_listing_def sold_listing_def
        listed_registry_def marketplace_init_def)

text \<open>
  Claim C10. A purchase that goes through leaves the registry's \<open>listings\<close> table as
  it was: it only moves the two sales counters. The listing keeps its identifier and is
  inactive afterwards, so a table entry \<open>True\<close> for it is still there although the
  listing's own flag is now false, and since every later delist of that listing aborts,
  the entry is not taken out by the one function that removes entries. Of the other
  functions, \<open>complete_purchase\<close> leaves the table unchanged as well,
  \<open>list_ai_twin\<close> keeps every entry that is present, and \<open>update_listing\<close> is
  not given the registry; \<open>delist_ai_twin\<close> removes the entry of its listing.
\<close>

theorem purchase_leaves_listings_table:
  "(purchase_access registry listing nft payment ctx = Inr ((registry', listing'), out) \<longrightarrow>
       listings registry' = listings registry
       \<and> Listing.uid listing' = Listing.uid listing
       \<and> \<not> Listing.is_active listing'
       \<and> (listings registry (Listing.uid listing) = Some True
            \<longrightarrow> listings registry' (Listing.uid listing') = Some True)
       \<and> (\<exists>e. delist_ai_twin registry2 listing' ctx2 = Inl e))
   \<and> (complete_purchase registry listing nft payment ctx = Inr ((registry', listing'), ts) \<longrightarrow>
       listings registry' = listings registry)
   \<and> (list_ai_twin registry nft p a d t ctx = Inr (registry', new_listing) \<longrightarrow>
       (listings registry k = Some v \<longrightarrow> listings registry' k = Some v))
   \<and> (delist_ai_twin registry listing ctx = Inr (registry', listing') \<longrightarrow>
       listings registry' (Listing.uid listing) = None)"
proof (intro conjI impI)
  assume ok: "purchase_access registry listing nft payment ctx = Inr ((registry', listing'), out)"
  obtain nft' fee seller_amt change where out: "out = (nft', fee, seller_amt, change)"
    by (cases out) auto
  from ok have l': "listing' = listing\<lparr>Listing.is_active := False\<rparr>"
    and r': "registry' = registry\<lparr>total_sales := total_sales registry + 1,
                           total_volume := total_volume registry + price listing\<rparr>"
    unfolding out purchase_access_Inr_iff by blast+
  show "listings registry' = listings registry" by (simp add: r')
  show "Listing.uid listing' = Listing.uid listing" by (simp add: l')
  show "\<not> Listing.is_active listing'" by (simp add: l')
  then show "\<exists>e. delist_ai_twin registry2 listing' ctx2 = Inl e"
    by (simp add: delist_ai_twin_inactive)
  show "listings registry' (Listing.uid listing') = Some True"
    if "listings registry (Listing.uid listing) = Some True"
    using that by (simp add: r' l')
next
  assume "complete_purchase registry listing nft payment ctx = Inr ((registry', listing'), ts)"
  then show "listings registry' = listings registry"
    by (auto simp: complete_purchase_Inr_iff purchase_access_Inr_iff)
next
  assume "list_ai_twin registry nft p a d t ctx = Inr (registry', new_listing)"
    and "listings registry k = Some v"
  then show "listings registry' k = Some v"
    by (auto simp: list_ai_twin_Inr_iff)
next
  assume "delist_ai_twin registry listing ctx = Inr (registry', listing')"
  then show "listings registry' (Listing.uid listing) = None"
    by (simp add: delist_ai_twin_Inr_iff)
qed

lemma listed_complete_purchase:
  "complete_purchase listed_registry sample_listing sample_nft 100 (ctx_of 2)
   = Inr ((listed_registry\<lparr>total_sales := 1, total_volume := 100\<rparr>, sold_listing),
          [TransferNFT sample_nft 2, TransferCoin 10 9, TransferCoin 90 1])"
proof -
  have "MarketplaceRegistry.platform_fee_recipient
          (listed_registry\<lparr>total_sales := 1, total_volume := 100\<rparr>) = 9"
    by (simp add: listed_registry_def sample_registry_def marketplace_init_def ctx_of_def)
  moreover have "seller sold_listing = 1"
    by (simp add: sold_listing_def sample_listing_def)
  moreover have "sender (ctx_of 2) = 2" by (simp add: ctx_of_def)
  ultimately show ?thesis
    by (simp add: complete_purchase_def and_then_def listed_purchase)
qed

lemma listed_delist:
  "delist_ai_twin listed_registry sample_listing (ctx_of 1)
   = Inr (listed_registry\<lparr>listings := (listings listed_registry)((7, 0) := None)\<rparr>,
          sold_listing)"
  by (simp add: delist_ai_twin_Inr_iff sample_listing_def sold_listing_def ctx_of_def)

lemma listed_list_again:
  "list_ai_twin listed_registry sample_nft 100 ACCESS_TYPE_FULL 0 []
     ((ctx_of 1)\<lparr>ids_created := 1\<rparr>)
   = Inr (listed_registry\<lparr>listings := (listings listed_registry)((7, 1) \<mapsto> True),
                           total_listings := 2\<rparr>,
          sample_listing\<lparr>Listing.uid := (7, 1)\<rparr>)"
  by (simp add: list_ai_twin_Inr_iff sample_registry_def sample_listing_def sample_nft_def
        listed_registry_def marketplace_init_def ctx_of_def)

theorem purchase_leaves_listings_table_witness:
  "list_ai_twin sample_registry sample_nft 100 ACCESS_TYPE_FULL 0 [] (ctx_of 1)
     = Inr (listed_registry, sample_listing)
   \<and> listings listed_registry (Listing.uid sample_listing) = Some True
   \<and> purchase_access listed_registry sample_listing sample_nft 100 (ctx_of 2)
     = Inr ((listed_registry\<lparr>total_sales := 1, total_volume := 100\<rparr>, sold_listing),
            (sample_nft, 10, 90, 0))
   \<and> listings (listed_registry\<lparr>total_sales := 1, total_volume := 100\<rparr>)
        (Listing.uid sold_listing) = Some True
   \<and> \<not> Listing.is_active sold_listing
   \<and> complete_purchase listed_registry sample_listing sample_nft 100 (ctx_of 2)
     = Inr ((listed_registry\<lparr>total_sales := 1, total_volume := 100\<rparr>, sold_listing),
            [TransferNFT sample_nft 2, TransferCoin 10 9, TransferCoin 90 1])
   \<and> listings (listed_registry\<lparr>total_sales := 1, total_volume := 100\<rparr>)
       = listings listed_registry
   \<and> list_ai_twin listed_registry sample_nft 100 ACCESS_TYPE_FULL 0 []
        ((ctx_of 1)\<lparr>ids_created := 1\<rparr>)
     = Inr (listed_registry\<lparr>listings := (listings listed_registry)((7, 1) \<mapsto> True),
                             total_listings := 2\<rparr>,
            sample_listing\<lparr>Listing.uid := (7, 1)\<rparr>)
   \<and> listings (listed_registry\<lparr>listings := (listings listed_registry)((7, 1) \<mapsto> True),
                                total_listings := 2\<rparr>) (7, 0) = Some True
   \<and> delist_ai_twin listed_registry sample_listing (ctx_of 1)
     = Inr (listed_registry\<lparr>listings := (listings listed_registry)((7, 0) := None)\<rparr>,
            sold_listing)
   \<and> listings (listed_registry\<lparr>listings := (listings listed_registry)((7, 0) := None)\<rparr>)
        (Listing.uid sample_listing) = None"
proof -
  have before: "listings listed_registry (Listing.uid sample_listing) = Some True"
    by (simp add: listed_registry_def sample_listing_def)
  have present: "listings listed_registry (7, 0) = Some True"
    by (simp add: listed_registry_def)
  note sold = purchase_leaves_listings_table
            [of listed_registry sample_listing sample_nft 100 "ctx_of 2"
                "listed_registry\<lparr>total_sales := 1, total_volume := 100\<rparr>" sold_listing
                "(sample_nft, 10, 90, 0)" _ _
                "[TransferNFT sample_nft 2, TransferCoin 10 9, TransferCoin 90 1]"]
  note relisted = purchase_leaves_listings_table
            [of listed_registry _ sample_nft _ "(ctx_of 1)\<lparr>ids_created := 1\<rparr>"
                "listed_registry\<lparr>listings := (listings listed_registry)((7, 1) \<mapsto> True),
                                   total_listings := 2\<rparr>" _ _ _ _ _
                100 ACCESS_TYPE_FULL 0 "[]" "sample_listing\<lparr>Listing.uid := (7, 1)\<rparr>"
                "(7, 0)" True]
  note delisted = purchase_leaves_listings_table
            [of listed_registry sample_listing _ _ "ctx_of 1"
                "listed_registry\<lparr>listings := (listings listed_registry)((7, 0) := None)\<rparr>"
                sold_listing]
  have a: "listings (listed_registry\<lparr>total_sales := 1, total_volume := 100\<rparr>)
             (Listing.uid sold_listing) = Some True
           \<and> \<not> Listing.is_active sold_listing
           \<and> listings (listed_registry\<lparr>total_sales := 1, total_volume := 100\<rparr>)
               = listings listed_registry"
    using sold listed_purchase listed_complete_purchase before by blast
  have b: "listings (listed_registry\<lparr>listings := (listings listed_registry)((7, 1) \<mapsto> True),
                                total_listings := 2\<rparr>) (7, 0) = Some True"
    using relisted listed_list_again present by blast
  have c: "listings (listed_registry\<lparr>listings := (listings listed_registry)((7, 0) := None)\<rparr>)
        (Listing.uid sample_listing) = None"
    using delisted listed_delist by blast
  show ?thesis
    using a b c sample_list listed_purchase listed_complete_purchase
      listed_list_again listed_delist before
    by blast
qed

section \<open>Listing an AI twin\<close>

lemma list_ai_twin_unrecognised:
  "a \<noteq> ACCESS_TYPE_FULL \<Longrightarrow> a \<noteq> ACCESS_TYPE_LIMITED \<Longrightarrow> a \<noteq> ACCESS_TYPE_TEMPORARY \<Longrightarrow>
   list_ai_twin registry nft p a d t ctx = Inl ERROR_INVALID_ACCESS_TYPE"
  by (simp add: list_ai_twin_def and_then_def assert_that_def)

lemma list_ai_twin_recognised:
  assumes "a = ACCESS_TYPE_FULL \<or> a = ACCESS_TYPE_LIMITED \<or> a = ACCESS_TYPE_TEMPORARY"
  shows "list_ai_twin registry nft p a d t ctx \<noteq> Inl ERROR_INVALID_ACCESS_TYPE"
  using assms unfolding list_ai_twin_def Let_def
  by (auto simp: and_then_Inl_iff assert_that_Inl_iff utf8_def table_add_def u64_add_def
        split: option.splits if_splits)

text \<open>
  Claim C9 (amended). \<open>list_ai_twin\<close> aborts with \<open>ERROR_INVALID_ACCESS_TYPE\<close>
  exactly when the access type is none of Full, Limited and Temporary; the duration is
  not looked at. For each of the three access types and every duration, zero included,
  it creates an active listing that carries the access type and the duration and
  enters it in the registry's table, given that the terms are well-formed UTF-8, that
  the fresh identifier is not in the table and that the listing counter does not
  overflow.
\<close>

theorem list_ai_twin_policy:
  "(list_ai_twin registry nft p a d t ctx = Inl ERROR_INVALID_ACCESS_TYPE
      \<longleftrightarrow> a \<noteq> ACCESS_TYPE_FULL \<and> a \<noteq> ACCESS_TYPE_LIMITED \<and> a \<noteq> ACCESS_TYPE_TEMPORARY)
   \<and> ((a = ACCESS_TYPE_FULL \<or> a = ACCESS_TYPE_LIMITED \<or> a = ACCESS_TYPE_TEMPORARY)
        \<and> internal_check_utf8 t
        \<and> listings registry (fst (object_new ctx)) = None
        \<and> unat (total_listings registry) + 1 < 2 ^ 64
       \<longrightarrow> (\<exists>registry' listing.
              list_ai_twin registry nft p a d t ctx = Inr (registry', listing)
              \<and> Listing.is_active listing
              \<and> Listing.access_type listing = a
              \<and> access_duration_days listing = d
              \<and> listings registry' (Listing.uid listing) = Some True))"
proof (intro conjI impI)
  show "list_ai_twin registry nft p a d t ctx = Inl ERROR_INVALID_ACCESS_TYPE
      \<longleftrightarrow> a \<noteq> ACCESS_TYPE_FULL \<and> a \<noteq> ACCESS_TYPE_LIMITED \<and> a \<noteq> ACCESS_TYPE_TEMPORARY"
    using list_ai_twin_unrecognised[of a registry nft p d t ctx]
      list_ai_twin_recognised[of a registry nft p d t ctx]
    by blast
next
  assume "(a = ACCESS_TYPE_FULL \<or> a = ACCESS_TYPE_LIMITED \<or> a = ACCESS_TYPE_TEMPORARY)
        \<and> internal_check_utf8 t
        \<and> listings registry (fst (object_new ctx)) = None
        \<and> unat (total_listings registry) + 1 < 2 ^ 64"
  then show "\<exists>registry' listing.
              list_ai_twin registry nft p a d t ctx = Inr (registry', listing)
              \<and> Listing.is_active listing
              \<and> Listing.access_type listing = a
              \<and> access_duration_days listing = d
              \<and> listings registry' (Listing.uid listing) = Some True"
    by (simp add: list_ai_twin_Inr_iff object_new_def)
qed

lemma sample_list_temporary:
  "list_ai_twin sample_registry sample_nft 100 ACCESS_TYPE_TEMPORARY 0 [] (ctx_of 1)
   = Inr (listed_registry, sample_listing\<lparr>Listing.access_type := ACCESS_TYPE_TEMPORARY\<rparr>)"
  by (simp add: list_ai_twin_Inr_iff sample_registry_def sample_listing_def sample_nft_def
        listed_registry_def marketplace_init_def ctx_of_def)

theorem list_ai_twin_policy_witness:
  "(7 :: u8) \<noteq> ACCESS_TYPE_FULL \<and> 7 \<noteq> ACCESS_TYPE_LIMITED \<and> 7 \<noteq> ACCESS_TYPE_TEMPORARY
   \<and> list_ai_twin sample_registry sample_nft 100 7 0 [] (ctx_of 1) = Inl ERROR_INVALID_ACCESS_TYPE
   \<and> internal_check_utf8 []
   \<and> listings sample_registry (fst (object_new (ctx_of 1))) = None
   \<and> unat (total_listings sample_registry) + 1 < 2 ^ 64
   \<and> (\<exists>registry' listing.
         list_ai_twin sample_registry sample_nft 100 ACCESS_TYPE_TEMPORARY 0 [] (ctx_of 1)
           = Inr (registry', listing)
         \<and> Listing.is_active listing
         \<and> Listing.access_type listing = ACCESS_TYPE_TEMPORARY
         \<and> access_duration_days listing = 0
         \<and> listings registry' (Listing.uid listing) = Some True)"
proof -
  have bad: "(7 :: u8) \<noteq> ACCESS_TYPE_FULL \<and> 7 \<noteq> ACCESS_TYPE_LIMITED \<and> 7 \<noteq> ACCESS_TYPE_TEMPORARY"
    by (simp add: ACCESS_TYPE_FULL_def ACCESS_TYPE_LIMITED_def ACCESS_TYPE_TEMPORARY_def)
  have good: "internal_check_utf8 []
      \<and> listings sample_registry (fst (object_new (ctx_of 1))) = None
      \<and> unat (total_listings sample_registry) + 1 < 2 ^ 64"
    by (simp add: sample_registry_def marketplace_init_def)
  show ?thesis
    using list_ai_twin_policy[of sample_registry sample_nft 100 7 0 "[]" "ctx_of 1"]
      list_ai_twin_policy
        [of sample_registry sample_nft 100 ACCESS_TYPE_TEMPORARY 0 "[]" "ctx_of 1"]
      bad good
    by blast
qed

text \<open>
  The claim as stated fails for a Temporary listing of zero days: it is created, not
  rejected.
\<close>

theorem temporary_zero_days_listed_counterexample:
  "list_ai_twin sample_registry sample_nft 100 ACCESS_TYPE_TEMPORARY 0 [] (ctx_of 1)
     = Inr (listed_registry, sample_listing\<lparr>Listing.access_type := ACCESS_TYPE_TEMPORARY\<rparr>)
   \<and> access_duration_days (sample_listing\<lparr>Listing.access_type := ACCESS_TYPE_TEMPORARY\<rparr>) = 0
   \<and> list_ai_twin sample_registry sample_nft 100 ACCESS_TYPE_TEMPORARY 0 [] (ctx_of 1)
     \<noteq> Inl ERROR_INVALID_ACCESS_TYPE"
proof -
  have days: "access_duration_days
                (sample_listing\<lparr>Listing.access_type := ACCESS_TYPE_TEMPORARY\<rparr>) = 0"
    by (simp add: sample_listing_def)
  show ?thesis
    unfolding sample_list_temporary using days by simp
qed

section \<open>Access tokens: minting, expiry and revocation\<close>

lemma table_borrow_Inr_iff: "table_borrow t k = Inr v \<longleftrightarrow> t k = Some v"
  by (auto simp: table_borrow_def split: option.splits)

lemma mint_access_token_Inr_iff:
  "mint_access_token registry tw own a d key lid sel clock ctx = Inr (registry', token)
   \<longleftrightarrow> unat d * 86400 < 2 ^ 64
       \<and> unat (timestamp_ms clock) div 1000 + unat d * 86400 < 2 ^ 64
       \<and> internal_check_utf8 tw
       \<and> unat (total_granted registry) + 1 < 2 ^ 64
       \<and> token = \<lparr>AccessToken.uid = (tx_hash ctx, ids_created ctx),
                    twin_id = tw,
                    owner = own,
                    access_type = a,
                    granted_at = timestamp_ms clock div 1000,
                    expires_at = timestamp_ms clock div 1000 + d * 86400,
                    encrypted_key = key,
                    purchase_listing_id = lid,
                    is_active = True,
                    original_seller = sel\<rparr>
       \<and> registry' = registry
            \<lparr>active_accesses :=
               (active_accesses registry)
                 (own \<mapsto> (case active_accesses registry own of None \<Rightarrow> [] | Some ts \<Rightarrow> ts)
                          @ [(tx_hash ctx, ids_created ctx)]),
             total_granted := total_granted registry + 1\<rparr>"
  unfolding mint_access_token_def Let_def object_new_def SECONDS_PER_DAY_def push_back_def
  by (auto simp: and_then_Inr_iff u64_mul_Inr_iff u64_add_Inr_iff utf8_Inr_iff
        table_contains_def table_add_def table_borrow_Inr_iff unat_u64_mul unat_div
        split: option.splits)

lemma minted_token_expiry:
  assumes "mint_access_token registry tw own a d key lid sel clock ctx = Inr (registry', token)"
  shows "AccessToken.is_active token
     \<and> AccessToken.access_type token = a
     \<and> unat (granted_at token) = unat (timestamp_ms clock) div 1000
     \<and> unat (expires_at token) = unat (timestamp_ms clock) div 1000 + unat d * 86400"
proof -
  from assms have m: "unat d * 86400 < 2 ^ 64"
    and s: "unat (timestamp_ms clock) div 1000 + unat d * 86400 < 2 ^ 64"
    and t: "token = \<lparr>AccessToken.uid = (tx_hash ctx, ids_created ctx),
                    twin_id = tw,
                    owner = own,
                    access_type = a,
                    granted_at = timestamp_ms clock div 1000,
                    expires_at = timestamp_ms clock div 1000 + d * 86400,
                    encrypted_key = key,
                    purchase_listing_id = lid,
                    is_active = True,
                    original_seller = sel\<rparr>"
    unfolding mint_access_token_Inr_iff by blast+
  have md: "unat (d * 86400) = unat d * 86400"
    using unat_u64_mul[of d 86400] m by simp
  have "unat (timestamp_ms clock div 1000) + unat (d * 86400) < 2 ^ 64"
    using s by (simp add: md unat_div)
  then have "unat (timestamp_ms clock div 1000 + d * 86400)
             = unat (timestamp_ms clock div 1000) + unat (d * 86400)"
    by (rule unat_u64_add)
  then show ?thesis by (simp add: t md unat_div)
qed

lemma check_access_iff:
  "check_access token now
   \<longleftrightarrow> AccessToken.is_active token
       \<and> unat (timestamp_ms now) div 1000 < unat (expires_at token)"
  by (simp add: check_access_def Let_def word_less_nat_alt unat_div)

lemma revoke_access_Inr_iff:
  "revoke_access admin token reason ctx = Inr token'
   \<longleftrightarrow> sender ctx = original_seller token \<and> internal_check_utf8 reason
       \<and> token' = token\<lparr>AccessToken.is_active := False\<rparr>"
  unfolding revoke_access_def Let_def
  by (auto simp: and_then_Inr_iff assert_that_Inr_iff utf8_Inr_iff)

text \<open>
  Claim C3. Take a token minted at clock time \<open>T\<close> (in seconds, the clock's
  milliseconds divided by 1000) with a duration of \<open>d\<close> days, under any access type
  and so under Limited and Temporary. As long as it is not revoked, \<open>check_access\<close>
  at a clock time \<open>now\<close> is true exactly when \<open>now < T + d * 86400\<close>; once
  \<open>revoke_access\<close> has gone through it is false at every time. For 30 days it is
  true at \<open>T\<close> plus 29 days and false at \<open>T\<close> plus 31 days.
\<close>

theorem minted_token_validity:
  assumes "mint_access_token registry tw own a d key lid sel clock ctx = Inr (registry', token)"
  shows "(check_access token now
            \<longleftrightarrow> unat (timestamp_ms now) div 1000
                 < unat (timestamp_ms clock) div 1000 + unat d * 86400)
     \<and> (revoke_access admin token reason ctx2 = Inr revoked \<longrightarrow> \<not> check_access revoked now)
     \<and> (d = 30 \<and> unat (timestamp_ms now) div 1000
                   = unat (timestamp_ms clock) div 1000 + 29 * 86400
          \<longrightarrow> check_access token now)
     \<and> (d = 30 \<and> unat (timestamp_ms now) div 1000
                   = unat (timestamp_ms clock) div 1000 + 31 * 86400
          \<longrightarrow> \<not> check_access token now)"
proof -
  note e = minted_token_expiry[OF assms]
  have 1: "check_access token now
            \<longleftrightarrow> unat (timestamp_ms now) div 1000
                 < unat (timestamp_ms clock) div 1000 + unat d * 86400"
    using e by (simp add: check_access_iff)
  have 2: "\<not> check_access revoked now"
    if "revoke_access admin token reason ctx2 = Inr revoked"
    using that by (simp add: revoke_access_Inr_iff check_access_iff)
  have 3: "check_access token now"
    if "d = 30 \<and> unat (timestamp_ms now) div 1000
                   = unat (timestamp_ms clock) div 1000 + 29 * 86400"
    using that 1 by simp
  have 4: "\<not> check_access token now"
    if "d = 30 \<and> unat (timestamp_ms now) div 1000
                   = unat (timestamp_ms clock) div 1000 + 31 * 86400"
    using that 1 by simp
  from 1 2 3 4 show ?thesis by blast
qed

lemma sample_mint:
  "mint_access_token sample_access_registry [0x41] 2 kind days [0x6B] (7, 0) 1 (at_seconds 1000)
     (ctx_of 2)
   = Inr (granted_registry, sample_token kind 1000 (1000 + days * 86400))"
  if "unat days \<le> 36500" for kind days
proof -
  have "unat days * 86400 \<le> 36500 * 86400" using that by simp
  then show ?thesis
    by (simp add: mint_access_token_Inr_iff sample_access_registry_def granted_registry_def
        sample_token_def at_seconds_def ctx_of_def)
qed

theorem minted_token_validity_witness:
  "mint_access_token sample_access_registry [0x41] 2 ACCESS_TYPE_LIMITED 30 [0x6B] (7, 0) 1
     (at_seconds 1000) (ctx_of 2)
   = Inr (granted_registry, sample_token ACCESS_TYPE_LIMITED 1000 (1000 + 30 * 86400))
   \<and> check_access (sample_token ACCESS_TYPE_LIMITED 1000 (1000 + 30 * 86400))
        (at_seconds (1000 + 29 * 86400))
   \<and> \<not> check_access (sample_token ACCESS_TYPE_LIMITED 1000 (1000 + 30 * 86400))
          (at_seconds (1000 + 31 * 86400))
   \<and> revoke_access \<lparr>AdminCap.uid = (0, 1)\<rparr>
        (sample_token ACCESS_TYPE_LIMITED 1000 (1000 + 30 * 86400)) [] (ctx_of 1)
      = Inr ((sample_token ACCESS_TYPE_LIMITED 1000 (1000 + 30 * 86400))
               \<lparr>AccessToken.is_active := False\<rparr>)
   \<and> \<not> check_access ((sample_token ACCESS_TYPE_LIMITED 1000 (1000 + 30 * 86400))
                        \<lparr>AccessToken.is_active := False\<rparr>)
          (at_seconds (1000 + 29 * 86400))"
proof -
  have minted: "mint_access_token sample_access_registry [0x41] 2 ACCESS_TYPE_LIMITED 30 [0x6B]
                  (7, 0) 1 (at_seconds 1000) (ctx_of 2)
                = Inr (granted_registry, sample_token ACCESS_TYPE_LIMITED 1000 (1000 + 30 * 86400))"
    by (rule sample_mint) simp
  have early: "(30 :: u64) = 30 \<and> unat (timestamp_ms (at_seconds (1000 + 29 * 86400))) div 1000
                 = unat (timestamp_ms (at_seconds 1000)) div 1000 + 29 * 86400"
    by (simp add: at_seconds_def)
  have late: "(30 :: u64) = 30 \<and> unat (timestamp_ms (at_seconds (1000 + 31 * 86400))) div 1000
                 = unat (timestamp_ms (at_seconds 1000)) div 1000 + 31 * 86400"
    by (simp add: at_seconds_def)
  have revoked: "revoke_access \<lparr>AdminCap.uid = (0, 1)\<rparr>
        (sample_token ACCESS_TYPE_LIMITED 1000 (1000 + 30 * 86400)) [] (ctx_of 1)
      = Inr ((sample_token ACCESS_TYPE_LIMITED 1000 (1000 + 30 * 86400))
               \<lparr>AccessToken.is_active := False\<rparr>)"
    by (simp add: revoke_access_Inr_iff sample_token_def ctx_of_def)
  show ?thesis
    using minted_token_validity[OF minted, of "at_seconds (1000 + 29 * 86400)"]
      minted_token_validity[OF minted, of "at_seconds (1000 + 31 * 86400)"]
      minted early late revoked
    by blast
qed

text \<open>
  Claim C4 (amended). \<open>mint_access_token\<close> treats the access type Full like the
  other two: the token expires at the minting time plus \<open>duration_days * 86400\<close>
  seconds, there is no value of \<open>expires_at\<close> that stands for never, and an
  unrevoked Full token passes \<open>check_access\<close> exactly before that time.
\<close>

theorem full_access_token_expiry:
  assumes "mint_access_token registry tw own ACCESS_TYPE_FULL d key lid sel clock ctx
           = Inr (registry', token)"
  shows "AccessToken.access_type token = ACCESS_TYPE_FULL
     \<and> AccessToken.is_active token
     \<and> unat (expires_at token) = unat (timestamp_ms clock) div 1000 + unat d * 86400
     \<and> (check_access token now
          \<longleftrightarrow> unat (timestamp_ms now) div 1000
               < unat (timestamp_ms clock) div 1000 + unat d * 86400)"
  using minted_token_expiry[OF assms] by (simp add: check_access_iff)

theorem full_access_token_expiry_witness:
  "mint_access_token sample_access_registry [0x41] 2 ACCESS_TYPE_FULL 30 [0x6B] (7, 0) 1
     (at_seconds 1000) (ctx_of 2)
   = Inr (granted_registry, sample_token ACCESS_TYPE_FULL 1000 (1000 + 30 * 86400))
   \<and> unat (expires_at (sample_token ACCESS_TYPE_FULL 1000 (1000 + 30 * 86400)))
       = unat (timestamp_ms (at_seconds 1000)) div 1000 + unat (30 :: u64) * 86400
   \<and> (check_access (sample_token ACCESS_TYPE_FULL 1000 (1000 + 30 * 86400))
         (at_seconds (1000 + 31 * 86400))
        \<longleftrightarrow> unat (timestamp_ms (at_seconds (1000 + 31 * 86400))) div 1000
             < unat (timestamp_ms (at_seconds 1000)) div 1000 + unat (30 :: u64) * 86400)"
proof -
  have minted: "mint_access_token sample_access_registry [0x41] 2 ACCESS_TYPE_FULL 30 [0x6B]
                  (7, 0) 1 (at_seconds 1000) (ctx_of 2)
                = Inr (granted_registry, sample_token ACCESS_TYPE_FULL 1000 (1000 + 30 * 86400))"
    by (rule sample_mint) simp
  show ?thesis
    using full_access_token_expiry[OF minted, of "at_seconds (1000 + 31 * 86400)"] minted
    by blast
qed

text \<open>
  The claim as stated (a Full token is valid at every later time) fails: a Full token of
  30 days is invalid 31 days after minting, and one of 0 days is invalid from the
  moment it is minted, both without having been revoked.
\<close>

theorem full_access_token_expires_counterexample:
  "mint_access_token sample_access_registry [0x41] 2 ACCESS_TYPE_FULL 30 [0x6B] (7, 0) 1
     (at_seconds 1000) (ctx_of 2)
   = Inr (granted_registry, sample_token ACCESS_TYPE_FULL 1000 (1000 + 30 * 86400))
   \<and> AccessToken.is_active (sample_token ACCESS_TYPE_FULL 1000 (1000 + 30 * 86400))
   \<and> \<not> check_access (sample_token ACCESS_TYPE_FULL 1000 (1000 + 30 * 86400))
          (at_seconds (1000 + 31 * 86400))
   \<and> mint_access_token sample_access_registry [0x41] 2 ACCESS_TYPE_FULL 0 [0x6B] (7, 0) 1
        (at_seconds 1000) (ctx_of 2)
      = Inr (granted_registry, sample_token ACCESS_TYPE_FULL 1000 1000)
   \<and> \<not> check_access (sample_token ACCESS_TYPE_FULL 1000 1000) (at_seconds 1000)"
proof -
  have m30: "mint_access_token sample_access_registry [0x41] 2 ACCESS_TYPE_FULL 30 [0x6B]
                  (7, 0) 1 (at_seconds 1000) (ctx_of 2)
                = Inr (granted_registry, sample_token ACCESS_TYPE_FULL 1000 (1000 + 30 * 86400))"
    by (rule sample_mint) simp
  have m0: "mint_access_token sample_access_registry [0x41] 2 ACCESS_TYPE_FULL 0 [0x6B]
                  (7, 0) 1 (at_seconds 1000) (ctx_of 2)
                = Inr (granted_registry, sample_token ACCESS_TYPE_FULL 1000 1000)"
    using sample_mint[where days = 0 and kind = ACCESS_TYPE_FULL] by simp
  have active: "AccessToken.is_active (sample_token ACCESS_TYPE_FULL 1000 (1000 + 30 * 86400))"
    by (simp add: sample_token_def)
  have c30: "\<not> check_access (sample_token ACCESS_TYPE_FULL 1000 (1000 + 30 * 86400))
          (at_seconds (1000 + 31 * 86400))"
    by (simp add: check_access_iff sample_token_def at_seconds_def)
  have c0: "\<not> check_access (sample_token ACCESS_TYPE_FULL 1000 1000) (at_seconds 1000)"
    by (simp add: check_access_iff sample_token_def at_seconds_def)
  from m30 m0 active c30 c0 show ?thesis by blast
qed

section \<open>Transferring an access token\<close>

lemma index_of_found: "fst (index_of xs e) \<longleftrightarrow> e \<in> set xs"
  by (induction xs) (auto split: prod.splits)

lemma index_of_remove:
  "index_of xs e = (True, i) \<Longrightarrow> vector_remove xs i = Inr (remove1 e xs)"
proof (induction xs arbitrary: i)
  case Nil
  then show ?case by simp
next
  case (Cons x xs)
  show ?case
  proof (cases "x = e")
    case True
    with Cons.prems show ?thesis by (simp add: vector_remove_def)
  next
    case False
    with Cons.prems obtain j where j: "index_of xs e = (True, j)" and i: "i = Suc j"
      by (auto split: prod.splits if_splits)
    from Cons.IH[OF j] have "j < length xs \<and> take j xs @ drop (Suc j) xs = remove1 e xs"
      by (auto simp: vector_remove_def split: if_splits)
    with False i show ?thesis by (simp add: vector_remove_def)
  qed
qed

text \<open>The index after a transfer: the identifier leaves the sender's list, if it is
  there, and is appended to the recipient's list.\<close>

lemma transfer_access_eq:
  "transfer_access registry token recipient ctx
   = (let index = active_accesses registry;
          index1 = (case index (sender ctx) of
                      None \<Rightarrow> index
                    | Some ts \<Rightarrow> if AccessToken.uid token \<in> set ts
                                then index(sender ctx \<mapsto> remove1 (AccessToken.uid token) ts)
                                else index);
          index2 = index1(recipient \<mapsto> (case index1 recipient of None \<Rightarrow> [] | Some ts \<Rightarrow> ts)
                                       @ [AccessToken.uid token])
      in Inr (registry\<lparr>active_accesses := index2\<rparr>, (token, recipient)))"
proof (cases "active_accesses registry (sender ctx)")
  case None
  then show ?thesis
    unfolding transfer_access_def Let_def push_back_def
    by (simp add: and_then_def table_contains_def table_add_def table_borrow_def
          split: option.splits)
next
  case (Some ts)
  show ?thesis
  proof (cases "AccessToken.uid token \<in> set ts")
    case True
    then obtain i where i: "index_of ts (AccessToken.uid token) = (True, i)"
      using index_of_found[of ts "AccessToken.uid token"]
      by (cases "index_of ts (AccessToken.uid token)") auto
    show ?thesis
      unfolding transfer_access_def Let_def push_back_def
      using Some True i index_of_remove[OF i]
      by (simp add: and_then_def table_contains_def table_add_def table_borrow_def
            split: option.splits)
  next
    case False
    then obtain i where i: "index_of ts (AccessToken.uid token) = (False, i)"
      using index_of_found[of ts "AccessToken.uid token"]
      by (cases "index_of ts (AccessToken.uid token)") auto
    show ?thesis
      unfolding transfer_access_def Let_def push_back_def
      using Some False i
      by (simp add: and_then_def table_contains_def table_add_def table_borrow_def
            split: option.splits)
  qed
qed

text \<open>
  Claim C8 (amended). \<open>transfer_access\<close> has no holder check and never aborts,
  whoever the sender is. It hands the token to the recipient with every field other than
  \<open>owner\<close> as it was, \<open>expires_at\<close> and \<open>original_seller\<close> among them,
  and re-indexes it: the first occurrence of the identifier is taken out of the sender's
  list, then the identifier is appended at the end of the recipient's list (an empty
  list when the recipient had none), and the lists of all other principals and the
  other fields of the registry stay as they are. When sender and recipient are the same
  principal, the identifier moves to the end of that principal's list.
\<close>

theorem transfer_access_effect:
  "\<exists>registry' token'.
      transfer_access registry token recipient ctx = Inr (registry', (token', recipient))
      \<and> AccessToken.uid token' = AccessToken.uid token
      \<and> AccessToken.twin_id token' = AccessToken.twin_id token
      \<and> AccessToken.access_type token' = AccessToken.access_type token
      \<and> granted_at token' = granted_at token
      \<and> expires_at token' = expires_at token
      \<and> encrypted_key token' = encrypted_key token
      \<and> purchase_listing_id token' = purchase_listing_id token
      \<and> AccessToken.is_active token' = AccessToken.is_active token
      \<and> original_seller token' = original_seller token
      \<and> AccessRegistry.uid registry' = AccessRegistry.uid registry
      \<and> total_granted registry' = total_granted registry
      \<and> active_accesses registry' recipient
          = Some ((case active_accesses registry recipient of
                     None \<Rightarrow> []
                   | Some ts \<Rightarrow> if sender ctx = recipient
                               then remove1 (AccessToken.uid token) ts else ts)
                  @ [AccessToken.uid token])
      \<and> (sender ctx \<noteq> recipient \<longrightarrow>
           active_accesses registry' (sender ctx)
           = map_option (remove1 (AccessToken.uid token)) (active_accesses registry (sender ctx)))
      \<and> (\<forall>p. p \<noteq> sender ctx \<and> p \<noteq> recipient \<longrightarrow>
               active_accesses registry' p = active_accesses registry p)"
  unfolding transfer_access_eq Let_def
  by (auto simp: remove1_idem split: option.splits)

text \<open>Two transfers worked out: to a recipient who already holds a token, and to
  oneself.\<close>

lemma sample_transfer_append:
  "transfer_access (indexed_registry [2 \<mapsto> [(7, 0)], 5 \<mapsto> [(8, 0)]])
     (sample_token ACCESS_TYPE_LIMITED 1000 2593000) 5 (ctx_of 2)
   = Inr (indexed_registry [2 \<mapsto> [], 5 \<mapsto> [(8, 0), (7, 0)]],
          (sample_token ACCESS_TYPE_LIMITED 1000 2593000, 5))"
  by (simp add: transfer_access_eq indexed_registry_def sample_token_def
        sample_access_registry_def ctx_of_def)

lemma sample_transfer_self:
  "transfer_access (indexed_registry [2 \<mapsto> [(7, 0), (8, 0)]])
     (sample_token ACCESS_TYPE_LIMITED 1000 2593000) 2 (ctx_of 2)
   = Inr (indexed_registry [2 \<mapsto> [(8, 0), (7, 0)]],
          (sample_token ACCESS_TYPE_LIMITED 1000 2593000, 2))"
  by (simp add: transfer_access_eq indexed_registry_def sample_token_def
        sample_access_registry_def ctx_of_def)

lemma sample_transfer_stranger:
  "transfer_access granted_registry (sample_token ACCESS_TYPE_LIMITED 1000 2593000) 3 (ctx_of 99)
   = Inr (indexed_registry [2 \<mapsto> [(7, 0)], 3 \<mapsto> [(7, 0)]],
          (sample_token ACCESS_TYPE_LIMITED 1000 2593000, 3))"
  by (simp add: transfer_access_eq granted_registry_def indexed_registry_def sample_token_def
        sample_access_registry_def ctx_of_def)

theorem transfer_access_effect_witness:
  "sender (ctx_of 2) \<noteq> 5 \<and> (9 :: address) \<noteq> sender (ctx_of 2) \<and> (9 :: address) \<noteq> 5
   \<and> transfer_access (indexed_registry [2 \<mapsto> [(7, 0)], 5 \<mapsto> [(8, 0)]])
        (sample_token ACCESS_TYPE_LIMITED 1000 2593000) 5 (ctx_of 2)
      = Inr (indexed_registry [2 \<mapsto> [], 5 \<mapsto> [(8, 0), (7, 0)]],
             (sample_token ACCESS_TYPE_LIMITED 1000 2593000, 5))
   \<and> active_accesses (indexed_registry [2 \<mapsto> [], 5 \<mapsto> [(8, 0), (7, 0)]]) 5
      = Some ((case active_accesses (indexed_registry [2 \<mapsto> [(7, 0)], 5 \<mapsto> [(8, 0)]]) 5 of
                 None \<Rightarrow> []
               | Some ts \<Rightarrow> if sender (ctx_of 2) = 5
                           then remove1 (AccessToken.uid (sample_token ACCESS_TYPE_LIMITED 1000 2593000)) ts
                           else ts)
              @ [AccessToken.uid (sample_token ACCESS_TYPE_LIMITED 1000 2593000)])
   \<and> active_accesses (indexed_registry [2 \<mapsto> [], 5 \<mapsto> [(8, 0), (7, 0)]]) (sender (ctx_of 2))
      = map_option (remove1 (AccessToken.uid (sample_token ACCESS_TYPE_LIMITED 1000 2593000)))
          (active_accesses (indexed_registry [2 \<mapsto> [(7, 0)], 5 \<mapsto> [(8, 0)]]) (sender (ctx_of 2)))
   \<and> active_accesses (indexed_registry [2 \<mapsto> [], 5 \<mapsto> [(8, 0), (7, 0)]]) 9
      = active_accesses (indexed_registry [2 \<mapsto> [(7, 0)], 5 \<mapsto> [(8, 0)]]) 9
   \<and> active_accesses (indexed_registry [2 \<mapsto> [], 5 \<mapsto> [(8, 0), (7, 0)]]) 5
      = Some [(8, 0), (7, 0)]
   \<and> active_accesses (indexed_registry [2 \<mapsto> [], 5 \<mapsto> [(8, 0), (7, 0)]]) 2 = Some []"
proof -
  have distinct: "sender (ctx_of 2) \<noteq> 5 \<and> (9 :: address) \<noteq> sender (ctx_of 2) \<and> (9 :: address) \<noteq> 5"
    by (simp add: ctx_of_def)
  have lists: "active_accesses (indexed_registry [2 \<mapsto> [], 5 \<mapsto> [(8, 0), (7, 0)]]) 5
                 = Some [(8, 0), (7, 0)]
       \<and> active_accesses (indexed_registry [2 \<mapsto> [], 5 \<mapsto> [(8, 0), (7, 0)]]) 2 = Some []"
    by (simp add: indexed_registry_def)
  from transfer_access_effect
         [of "indexed_registry [2 \<mapsto> [(7, 0)], 5 \<mapsto> [(8, 0)]]"
             "sample_token ACCESS_TYPE_LIMITED 1000 2593000" 5 "ctx_of 2"]
  obtain registry' token' where
    r: "transfer_access (indexed_registry [2 \<mapsto> [(7, 0)], 5 \<mapsto> [(8, 0)]])
          (sample_token ACCESS_TYPE_LIMITED 1000 2593000) 5 (ctx_of 2)
        = Inr (registry', (token', 5))"
    and rcp: "active_accesses registry' 5
      = Some ((case active_accesses (indexed_registry [2 \<mapsto> [(7, 0)], 5 \<mapsto> [(8, 0)]]) 5 of
                 None \<Rightarrow> []
               | Some ts \<Rightarrow> if sender (ctx_of 2) = 5
                           then remove1 (AccessToken.uid (sample_token ACCESS_TYPE_LIMITED 1000 2593000)) ts
                           else ts)
              @ [AccessToken.uid (sample_token ACCESS_TYPE_LIMITED 1000 2593000)])"
    and snd: "sender (ctx_of 2) \<noteq> 5 \<longrightarrow> active_accesses registry' (sender (ctx_of 2))
      = map_option (remove1 (AccessToken.uid (sample_token ACCESS_TYPE_LIMITED 1000 2593000)))
          (active_accesses (indexed_registry [2 \<mapsto> [(7, 0)], 5 \<mapsto> [(8, 0)]]) (sender (ctx_of 2)))"
    and others: "\<forall>p. p \<noteq> sender (ctx_of 2) \<and> p \<noteq> 5 \<longrightarrow>
       active_accesses registry' p
       = active_accesses (indexed_registry [2 \<mapsto> [(7, 0)], 5 \<mapsto> [(8, 0)]]) p"
    by blast
  from r have same: "registry' = indexed_registry [2 \<mapsto> [], 5 \<mapsto> [(8, 0), (7, 0)]]"
    unfolding sample_transfer_append by simp
  from others distinct have nine: "active_accesses registry' 9
       = active_accesses (indexed_registry [2 \<mapsto> [(7, 0)], 5 \<mapsto> [(8, 0)]]) 9"
    by blast
  from distinct sample_transfer_append rcp snd nine lists show ?thesis
    unfolding same by blast
qed

text \<open>
  The claim as stated fails: the token is recorded for principal 2, in its \<open>owner\<close>
  field and in the index, and principal 99, who is recorded nowhere, transfers it to
  principal 3; the call goes through. (A token has \<open>store\<close>, so it can reach a
  principal by a plain transfer that passes by the registry.)
\<close>

theorem transfer_access_no_holder_check_counterexample:
  "owner (sample_token ACCESS_TYPE_LIMITED 1000 2593000) = 2
   \<and> active_accesses granted_registry 2
       = Some [AccessToken.uid (sample_token ACCESS_TYPE_LIMITED 1000 2593000)]
   \<and> active_accesses granted_registry 99 = None
   \<and> sender (ctx_of 99) = 99
   \<and> transfer_access granted_registry (sample_token ACCESS_TYPE_LIMITED 1000 2593000) 3 (ctx_of 99)
     = Inr (indexed_registry [2 \<mapsto> [(7, 0)], 3 \<mapsto> [(7, 0)]],
            (sample_token ACCESS_TYPE_LIMITED 1000 2593000, 3))"
proof -
  have recorded: "owner (sample_token ACCESS_TYPE_LIMITED 1000 2593000) = 2
      \<and> active_accesses granted_registry 2
          = Some [AccessToken.uid (sample_token ACCESS_TYPE_LIMITED 1000 2593000)]
      \<and> active_accesses granted_registry 99 = None
      \<and> sender (ctx_of 99) = 99"
    by (simp add: sample_token_def granted_registry_def ctx_of_def)
  from recorded sample_transfer_stranger show ?thesis by blast
qed

section \<open>Withdrawing earnings\<close>

lemma withdraw_earnings_absent:
  "balances pool (sender ctx) = None \<Longrightarrow> withdraw_earnings pool ctx = Inl ERROR_NO_EARNINGS"
  by (simp add: withdraw_earnings_def Let_def and_then_def assert_that_def table_contains_def)

lemma withdraw_earnings_zero:
  "balances pool (sender ctx) = Some 0 \<Longrightarrow>
   withdraw_earnings pool ctx = Inl ERROR_INSUFFICIENT_BALANCE"
  by (simp add: withdraw_earnings_def Let_def and_then_def assert_that_def table_contains_def
        table_borrow_def)

lemma withdraw_earnings_positive:
  "balances pool (sender ctx) = Some b \<Longrightarrow> 0 < b \<Longrightarrow>
   withdraw_earnings pool ctx
   = Inr (pool\<lparr>balances := (balances pool)(sender ctx \<mapsto> 0)\<rparr>, (b, sender ctx))"
  by (simp add: withdraw_earnings_def Let_def and_then_def assert_that_def table_contains_def
        table_borrow_def balance_split_def)

text \<open>
  Claim C6 (amended). \<open>withdraw_earnings\<close> aborts with \<open>ERROR_NO_EARNINGS\<close> when
  the caller has no entry in the pool, and with \<open>ERROR_INSUFFICIENT_BALANCE\<close> when the
  entry holds zero. A withdrawal of a positive balance returns the whole balance and
  leaves the entry in place at zero, so a second withdrawal by the same principal right
  after it aborts with \<open>ERROR_INSUFFICIENT_BALANCE\<close>.
\<close>

theorem withdraw_earnings_cases:
  "(balances pool (sender ctx) = None \<longrightarrow> withdraw_earnings pool ctx = Inl ERROR_NO_EARNINGS)
   \<and> (balances pool (sender ctx) = Some 0 \<longrightarrow>
        withdraw_earnings pool ctx = Inl ERROR_INSUFFICIENT_BALANCE)
   \<and> (balances pool (sender ctx) = Some b \<and> 0 < b \<and> sender ctx2 = sender ctx \<longrightarrow>
        withdraw_earnings pool ctx
          = Inr (pool\<lparr>balances := (balances pool)(sender ctx \<mapsto> 0)\<rparr>, (b, sender ctx))
        \<and> get_balance (pool\<lparr>balances := (balances pool)(sender ctx \<mapsto> 0)\<rparr>) (sender ctx) = 0
        \<and> withdraw_earnings (pool\<lparr>balances := (balances pool)(sender ctx \<mapsto> 0)\<rparr>) ctx2
          = Inl ERROR_INSUFFICIENT_BALANCE)"
proof (intro conjI impI)
  show "withdraw_earnings pool ctx = Inl ERROR_NO_EARNINGS"
    if "balances pool (sender ctx) = None"
    using that by (rule withdraw_earnings_absent)
  show "withdraw_earnings pool ctx = Inl ERROR_INSUFFICIENT_BALANCE"
    if "balances pool (sender ctx) = Some 0"
    using that by (rule withdraw_earnings_zero)
next
  assume h: "balances pool (sender ctx) = Some b \<and> 0 < b \<and> sender ctx2 = sender ctx"
  let ?pool = "pool\<lparr>balances := (balances pool)(sender ctx \<mapsto> 0)\<rparr>"
  show "withdraw_earnings pool ctx = Inr (?pool, (b, sender ctx))"
    using h by (simp add: withdraw_earnings_positive)
  show "get_balance ?pool (sender ctx) = 0"
    by (simp add: get_balance_def table_contains_def)
  have "balances ?pool (sender ctx2) = Some 0" using h by simp
  then show "withdraw_earnings ?pool ctx2 = Inl ERROR_INSUFFICIENT_BALANCE"
    by (rule withdraw_earnings_zero)
qed

theorem withdraw_earnings_cases_witness:
  "balances (sample_pool Map.empty) (sender (ctx_of 1)) = None
   \<and> withdraw_earnings (sample_pool Map.empty) (ctx_of 1) = Inl ERROR_NO_EARNINGS
   \<and> balances (sample_pool [1 \<mapsto> 0]) (sender (ctx_of 1)) = Some 0
   \<and> withdraw_earnings (sample_pool [1 \<mapsto> 0]) (ctx_of 1) = Inl ERROR_INSUFFICIENT_BALANCE
   \<and> balances (sample_pool [1 \<mapsto> 50]) (sender (ctx_of 1)) = Some 50 \<and> (0 :: u64) < 50
   \<and> withdraw_earnings (sample_pool [1 \<mapsto> 50]) (ctx_of 1)
       = Inr ((sample_pool [1 \<mapsto> 50])
                \<lparr>balances := (balances (sample_pool [1 \<mapsto> 50]))(sender (ctx_of 1) \<mapsto> 0)\<rparr>,
              (50, sender (ctx_of 1)))
   \<and> withdraw_earnings
        ((sample_pool [1 \<mapsto> 50])
           \<lparr>balances := (balances (sample_pool [1 \<mapsto> 50]))(sender (ctx_of 1) \<mapsto> 0)\<rparr>)
        (ctx_of 1)
       = Inl ERROR_INSUFFICIENT_BALANCE"
proof -
  have none: "balances (sample_pool Map.empty) (sender (ctx_of 1)) = None"
    by (simp add: sample_pool_def)
  have zero: "balances (sample_pool [1 \<mapsto> 0]) (sender (ctx_of 1)) = Some 0"
    by (simp add: sample_pool_def ctx_of_def)
  have some: "balances (sample_pool [1 \<mapsto> 50]) (sender (ctx_of 1)) = Some 50 \<and> (0 :: u64) < 50
              \<and> sender (ctx_of 1) = sender (ctx_of 1)"
    by (simp add: sample_pool_def ctx_of_def)
  show ?thesis
    using withdraw_earnings_cases[of "sample_pool Map.empty" "ctx_of 1"]
      withdraw_earnings_cases[of "sample_pool [1 \<mapsto> 0]" "ctx_of 1"]
      withdraw_earnings_cases[of "sample_pool [1 \<mapsto> 50]" "ctx_of 1" 50 "ctx_of 1"]
      none zero some
    by blast
qed

text \<open>
  The claim as stated (the second withdrawal aborts with the no-earnings error) fails:
  after principal 1 has withdrawn 50, the next withdrawal aborts with
  \<open>ERROR_INSUFFICIENT_BALANCE\<close>.
\<close>

theorem second_withdraw_counterexample:
  "withdraw_earnings (sample_pool [1 \<mapsto> 50]) (ctx_of 1)
     = Inr (sample_pool [1 \<mapsto> 0], (50, 1))
   \<and> get_balance (sample_pool [1 \<mapsto> 0]) 1 = 0
   \<and> withdraw_earnings (sample_pool [1 \<mapsto> 0]) (ctx_of 1) = Inl ERROR_INSUFFICIENT_BALANCE
   \<and> withdraw_earnings (sample_pool [1 \<mapsto> 0]) (ctx_of 1) \<noteq> Inl ERROR_NO_EARNINGS"
proof -
  have first: "withdraw_earnings (sample_pool [1 \<mapsto> 50]) (ctx_of 1)
     = Inr (sample_pool [1 \<mapsto> 0], (50, 1))"
    using withdraw_earnings_positive[of "sample_pool [1 \<mapsto> 50]" "ctx_of 1" 50]
    by (simp add: sample_pool_def ctx_of_def)
  have bal: "get_balance (sample_pool [1 \<mapsto> 0]) 1 = 0"
    by (simp add: get_balance_def table_contains_def sample_pool_def)
  have second: "withdraw_earnings (sample_pool [1 \<mapsto> 0]) (ctx_of 1) = Inl ERROR_INSUFFICIENT_BALANCE"
    using withdraw_earnings_zero[of "sample_pool [1 \<mapsto> 0]" "ctx_of 1"]
    by (simp add: sample_pool_def ctx_of_def)
  from first bal second show ?thesis by simp
qed

section \<open>Transferring an AI twin\<close>

lemma transfer_twin_eq:
  "transfer_twin registry nft recipient ctx
   = Inr (registry\<lparr>twins := (twins registry)(AITwinNFT.twin_id nft \<mapsto> recipient)\<rparr>,
          (nft, recipient))"
  unfolding transfer_twin_def Let_def
  by (simp add: and_then_def table_contains_def table_remove_def table_add_def
        split: option.splits)

text \<open>
  Claim C7 (amended). \<open>transfer_twin\<close> checks neither the sender nor the registry:
  it never aborts, and whether or not the twin is known and whoever is recorded as its
  owner, the registry records the recipient as the owner afterwards.
\<close>

theorem transfer_twin_always_succeeds:
  "transfer_twin registry nft recipient ctx
     = Inr (registry\<lparr>twins := (twins registry)(AITwinNFT.twin_id nft \<mapsto> recipient)\<rparr>,
            (nft, recipient))
   \<and> get_twin_owner (registry\<lparr>twins := (twins registry)(AITwinNFT.twin_id nft \<mapsto> recipient)\<rparr>)
        (AITwinNFT.twin_id nft) = Inr recipient"
  by (simp add: transfer_twin_eq get_twin_owner_def and_then_def assert_that_def
        table_contains_def table_borrow_def)

theorem transfer_twin_always_succeeds_witness:
  "transfer_twin (sample_twin_registry [[0x41] \<mapsto> 1]) sample_nft 3 (ctx_of 1)
     = Inr ((sample_twin_registry [[0x41] \<mapsto> 1])
              \<lparr>twins := (twins (sample_twin_registry [[0x41] \<mapsto> 1]))
                          (AITwinNFT.twin_id sample_nft \<mapsto> 3)\<rparr>,
            (sample_nft, 3))"
  using transfer_twin_always_succeeds
          [of "sample_twin_registry [[0x41] \<mapsto> 1]" sample_nft 3 "ctx_of 1"]
  by blast

text \<open>
  The claim as stated fails: a sender who is not the recorded owner transfers the twin,
  and a twin that the registry does not know is transferred as well; both calls go
  through and record the recipient.
\<close>

theorem transfer_twin_unchecked_counterexample:
  "get_twin_owner (sample_twin_registry [[0x41] \<mapsto> 1]) (AITwinNFT.twin_id sample_nft) = Inr 1
   \<and> sender (ctx_of 2) \<noteq> 1
   \<and> transfer_twin (sample_twin_registry [[0x41] \<mapsto> 1]) sample_nft 3 (ctx_of 2)
     = Inr (sample_twin_registry [[0x41] \<mapsto> 3], (sample_nft, 3))
   \<and> get_twin_owner (sample_twin_registry Map.empty) (AITwinNFT.twin_id sample_nft)
     = Inl ERROR_TWIN_NOT_FOUND
   \<and> transfer_twin (sample_twin_registry Map.empty) sample_nft 3 (ctx_of 2)
     = Inr (sample_twin_registry [[0x41] \<mapsto> 3], (sample_nft, 3))"
  by (simp add: transfer_twin_eq get_twin_owner_def and_then_def assert_that_def
        table_contains_def table_borrow_def sample_twin_registry_def sample_nft_def ctx_of_def)

end
